theory Spec2Isabelle
  imports Main "HOL-Library.Sublist"
begin

section \<open>Data model\<close>

text \<open>
  The two tables the SQL statements of the server name:
  \<open>users(id, username, email, password)\<close> and
  \<open>skills(id, user_id, skill_name, proficiency)\<close>. The column \<open>id\<close> of each table is
  written \<open>users_id\<close> and \<open>skills_id\<close>, since \<open>id\<close> is the identity function of HOL.
\<close>

record user_row =
  users_id :: nat
  username :: string
  email :: string
  password :: string

record skill_row =
  skills_id :: nat
  user_id :: nat
  skill_name :: string
  proficiency :: string

text \<open>
  The object handed to \<open>jwt.sign\<close> in the login route, \<open>{ userId, username, email }\<close>,
  and the payload of a token: the same three claims with the time of issue and the expiry
  (both in seconds) that the token library adds.
\<close>

record claims =
  userId :: nat
  username_claim :: string
  email_claim :: string

record payload = claims +
  iat :: nat
  exp_claim :: nat

section \<open>The libraries\<close>

text \<open>
  \<open>bcrypt\<close> and \<open>jsonwebtoken\<close> are required by the server and are not part of the
  repository. Their primitives are parameters of the model:
  \<^item> \<open>bcrypt_hash data rounds salt\<close> is \<open>bcrypt.hash(data, rounds)\<close>, where \<open>salt\<close> is
    the random salt the library draws for this call;
  \<^item> \<open>bcrypt_compare data encrypted\<close> is \<open>bcrypt.compare(data, encrypted)\<close>;
  \<^item> \<open>jwt_encode secret p\<close> is the signed text of the payload \<open>p\<close>, and
    \<open>jwt_decode secret text\<close> is the payload of a well-formed text whose signature
    matches the secret, \<open>None\<close> otherwise.
\<close>

record libs =
  bcrypt_hash :: "string \<Rightarrow> nat \<Rightarrow> string \<Rightarrow> string"
  bcrypt_compare :: "string \<Rightarrow> string \<Rightarrow> bool"
  jwt_encode :: "string \<Rightarrow> payload \<Rightarrow> string"
  jwt_decode :: "string \<Rightarrow> string \<Rightarrow> payload option"

datatype jwt_error = InvalidSignature | Expired

text \<open>
  Modelled from the spec: the Token Service (section 4.1), whose code is the
  \<open>jsonwebtoken\<close> library. \<open>issue\<close> signs a payload holding the claims with an absolute
  expiry, the time of issue plus the time to live; \<open>verify\<close> fails with
  \<open>InvalidSignature\<close> if the signature does not match, or \<open>Expired\<close> if the current
  time exceeds the embedded expiry. Times are in seconds. The theorems on tokens are
  stated for times strictly before and strictly after the expiry, so they do not depend
  on what \<open>verify\<close> does at the very second of the expiry.
\<close>

definition jwt_sign :: "libs \<Rightarrow> claims \<Rightarrow> string \<Rightarrow> nat \<Rightarrow> nat \<Rightarrow> string" where
  "jwt_sign L c secret ttl t =
     jwt_encode L secret
       \<lparr>userId = userId c, username_claim = username_claim c, email_claim = email_claim c,
        iat = t, exp_claim = t + ttl\<rparr>"

definition jwt_verify :: "libs \<Rightarrow> string \<Rightarrow> string \<Rightarrow> nat \<Rightarrow> jwt_error + payload" where
  "jwt_verify L token secret t =
     (case jwt_decode L secret token of
        None \<Rightarrow> Inl InvalidSignature
      | Some p \<Rightarrow> if exp_claim p < t then Inl Expired else Inr p)"

text \<open>The two literals of the source: the signing secret and \<open>expiresIn: '1h'\<close>.\<close>

definition secret_key :: string where
  "secret_key = ''your_secret_key''"

definition expiresIn :: nat where
  "expiresIn = 3600"

section \<open>Requests, responses and the environment of a request\<close>

text \<open>
  A request carries the value of its \<open>Authorization\<close> header (\<open>None\<close> when the header is
  absent), its parsed JSON body as a map from field names to string values (the fields
  the routes read are strings; \<open>None\<close> is a field that is not there), and the \<open>:id\<close>
  segment of its path, read as the number that the \<open>id\<close> column holds. For a segment
  that is not such a number the database rejects the statement: that is a fault of the
  environment below, not a value of \<open>params_id\<close>.
\<close>

record request =
  authorization :: "string option"
  body :: "string \<rightharpoonup> string"
  params_id :: nat

datatype json_body =
    Error string
  | ErrorDetails string string
  | Text string
  | Users "user_row list"
  | Skills "skill_row list"
  | MessageUser string "user_row option"
  | MessageToken string string
  | MessageSkill string "skill_row option"
  | Message string

record response =
  status :: nat
  content :: json_body

definition json :: "nat \<Rightarrow> json_body \<Rightarrow> response" where
  "json code b = \<lparr>status = code, content = b\<rparr>"

text \<open>
  What a request finds outside the program: the clock (seconds), the salt that
  \<open>bcrypt.hash\<close> draws, and the database's answer to each query. \<open>db_fault k\<close> is the
  error message with which the \<open>k\<close>-th query ever sent is rejected, \<open>None\<close> when it is
  answered.
\<close>

record env =
  now :: nat
  salt :: string
  db_fault :: "nat \<Rightarrow> string option"

text \<open>JavaScript's \<open>!x\<close> on a field that is a string or undefined.\<close>

definition js_not :: "string option \<Rightarrow> bool" where
  "js_not x = (case x of None \<Rightarrow> True | Some v \<Rightarrow> v = [])"

text \<open>
  \<open>s.replace(pat, rep)\<close> with a string pattern: the first occurrence of \<open>pat\<close> in \<open>s\<close>
  is replaced, and \<open>s\<close> is returned as it is when there is none.
\<close>

fun replace_first :: "string \<Rightarrow> string \<Rightarrow> string \<Rightarrow> string" where
  "replace_first pat rep [] = (if pat = [] then rep else [])"
| "replace_first pat rep (c # cs) =
     (if prefix pat (c # cs) then rep @ drop (length pat) (c # cs)
      else c # replace_first pat rep cs)"

section \<open>The authentication middleware\<close>

definition authenticate :: "libs \<Rightarrow> env \<Rightarrow> request \<Rightarrow> response + payload" where
  "authenticate L E req =
     (let token = map_option (replace_first ''Bearer '' []) (authorization req) in
      if js_not token then Inl (json 401 (Error ''Access denied, token missing''))
      else
        (case jwt_verify L (the token) secret_key (now E) of
           Inl err \<Rightarrow> Inl (json 400 (Error ''Invalid token''))
         | Inr decoded \<Rightarrow> Inr decoded))"

section \<open>The persistence gateway\<close>

text \<open>
  The database holds the two tables, the sequence behind each generated \<open>id\<close>, and the
  text of every statement sent to it so far (the trace of \<open>pool.query\<close>). The schema is
  not part of the repository: the tables are the ones the statements name, rows are kept
  in the order of their insertion, and no constraint is declared on them.
\<close>

record db =
  users :: "user_row list"
  skills :: "skill_row list"
  users_id_seq :: nat
  skills_id_seq :: nat
  queries :: "string list"

text \<open>
  \<open>pool.query(sql, params)\<close>: the statement is sent (and traced); the promise is
  rejected with the error the database raises for it, or resolved with the rows of the
  statement \<open>stmt\<close>, which may change the tables.
\<close>

definition pool_query ::
  "env \<Rightarrow> string \<Rightarrow> (db \<Rightarrow> 'r list \<times> db) \<Rightarrow> db \<Rightarrow> (string + 'r list) \<times> db" where
  "pool_query E sql stmt s =
     (let s1 = s\<lparr>queries := queries s @ [sql]\<rparr> in
      case db_fault E (length (queries s)) of
        Some msg \<Rightarrow> (Inl msg, s1)
      | None \<Rightarrow> (case stmt s1 of (rows, s2) \<Rightarrow> (Inr rows, s2)))"

text \<open>\<open>result.rows[0]\<close>, undefined when no row was returned.\<close>

definition rows0 :: "'r list \<Rightarrow> 'r option" where
  "rows0 rows = (case rows of [] \<Rightarrow> None | r # _ \<Rightarrow> Some r)"

subsection \<open>The statements of the server\<close>

definition select_users :: "db \<Rightarrow> user_row list \<times> db" where
  "select_users s = (users s, s)"

definition select_users_by_email :: "string \<Rightarrow> db \<Rightarrow> user_row list \<times> db" where
  "select_users_by_email e s = (filter (\<lambda>u. email u = e) (users s), s)"

definition select_users_by_username :: "string \<Rightarrow> db \<Rightarrow> user_row list \<times> db" where
  "select_users_by_username n s = (filter (\<lambda>u. username u = n) (users s), s)"

definition insert_user :: "string \<Rightarrow> string \<Rightarrow> string \<Rightarrow> db \<Rightarrow> user_row list \<times> db" where
  "insert_user n e p s =
     (let row = \<lparr>users_id = users_id_seq s, username = n, email = e, password = p\<rparr> in
      ([row], s\<lparr>users := users s @ [row], users_id_seq := Suc (users_id_seq s)\<rparr>))"

definition select_skills_by_user_id :: "nat \<Rightarrow> db \<Rightarrow> skill_row list \<times> db" where
  "select_skills_by_user_id u s = (filter (\<lambda>k. user_id k = u) (skills s), s)"

definition insert_skill :: "nat \<Rightarrow> string \<Rightarrow> string \<Rightarrow> db \<Rightarrow> skill_row list \<times> db" where
  "insert_skill u n p s =
     (let row = \<lparr>skills_id = skills_id_seq s, user_id = u, skill_name = n, proficiency = p\<rparr> in
      ([row], s\<lparr>skills := skills s @ [row], skills_id_seq := Suc (skills_id_seq s)\<rparr>))"

definition update_skill :: "string \<Rightarrow> string \<Rightarrow> nat \<Rightarrow> db \<Rightarrow> skill_row list \<times> db" where
  "update_skill n p i s =
     (let set_row = (\<lambda>k. k\<lparr>skill_name := n, proficiency := p\<rparr>) in
      (map set_row (filter (\<lambda>k. skills_id k = i) (skills s)),
       s\<lparr>skills := map (\<lambda>k. if skills_id k = i then set_row k else k) (skills s)\<rparr>))"

definition delete_skill :: "nat \<Rightarrow> db \<Rightarrow> skill_row list \<times> db" where
  "delete_skill i s =
     (filter (\<lambda>k. skills_id k = i) (skills s),
      s\<lparr>skills := filter (\<lambda>k. skills_id k \<noteq> i) (skills s)\<rparr>)"

section \<open>The route handlers\<close>

text \<open>
  Each handler takes the request and the database and returns the response with the
  database after it. The \<open>catch\<close> of a handler is the \<open>Inl\<close> branch of each query. The
  calls of the logger write to the console and to a file and are left out.
\<close>

definition get_root :: "request \<Rightarrow> db \<Rightarrow> response \<times> db" where
  "get_root req s = (json 200 (Text ''Welcome to SkillHub!''), s)"

definition get_users :: "env \<Rightarrow> payload \<Rightarrow> request \<Rightarrow> db \<Rightarrow> response \<times> db" where
  "get_users E decoded req s =
     (case pool_query E ''SELECT * FROM users'' select_users s of
        (Inl err, s1) \<Rightarrow> (json 500 (Error ''Error fetching users''), s1)
      | (Inr rows, s1) \<Rightarrow> (json 200 (Users rows), s1))"

definition post_register :: "libs \<Rightarrow> env \<Rightarrow> request \<Rightarrow> db \<Rightarrow> response \<times> db" where
  "post_register L E req s =
     (let username' = body req ''username'';
          email' = body req ''email'';
          password' = body req ''password'' in
      if js_not username' \<or> js_not email' \<or> js_not password' then
        (json 400 (Error ''Please provide all required fields (username, email, password)''), s)
      else
        (case pool_query E ''SELECT * FROM users WHERE email = $1''
                (select_users_by_email (the email')) s of
           (Inl err, s1) \<Rightarrow> (json 500 (ErrorDetails ''Error registering user'' err), s1)
         | (Inr checkEmail, s1) \<Rightarrow>
             if length checkEmail > 0 then (json 400 (Error ''Email already exists''), s1)
             else
               (case pool_query E ''SELECT * FROM users WHERE username = $1''
                       (select_users_by_username (the username')) s1 of
                  (Inl err, s2) \<Rightarrow> (json 500 (ErrorDetails ''Error registering user'' err), s2)
                | (Inr checkUsername, s2) \<Rightarrow>
                    if length checkUsername > 0 then
                      (json 400 (Error ''Username already exists''), s2)
                    else
                      (let hashedPassword = bcrypt_hash L (the password') 10 (salt E) in
                       case pool_query E
                              ''INSERT INTO users (username, email, password) VALUES ($1, $2, $3) RETURNING *''
                              (insert_user (the username') (the email') hashedPassword) s2 of
                         (Inl err, s3) \<Rightarrow>
                           (json 500 (ErrorDetails ''Error registering user'' err), s3)
                       | (Inr rows, s3) \<Rightarrow>
                           (json 201 (MessageUser ''User registered successfully'' (rows0 rows)),
                            s3)))))"

definition post_login :: "libs \<Rightarrow> env \<Rightarrow> request \<Rightarrow> db \<Rightarrow> response \<times> db" where
  "post_login L E req s =
     (let email' = body req ''email'';
          password' = body req ''password'' in
      if js_not email' \<or> js_not password' then
        (json 400 (Error ''Please provide both email and password''), s)
      else
        (case pool_query E ''SELECT * FROM users WHERE email = $1''
                (select_users_by_email (the email')) s of
           (Inl err, s1) \<Rightarrow> (json 500 (Error ''Error logging in user''), s1)
         | (Inr rows, s1) \<Rightarrow>
             (case rows0 rows of
                None \<Rightarrow> (json 404 (Error ''User not found''), s1)
              | Some user \<Rightarrow>
                  (let isMatch = bcrypt_compare L (the password') (password user) in
                   if \<not> isMatch then (json 401 (Error ''Incorrect password''), s1)
                   else
                     (let token =
                            jwt_sign L
                              \<lparr>userId = users_id user, username_claim = username user,
                               email_claim = email user\<rparr>
                              secret_key expiresIn (now E) in
                      (json 200 (MessageToken ''Login successful'' token), s1))))))"

definition get_skills :: "env \<Rightarrow> payload \<Rightarrow> request \<Rightarrow> db \<Rightarrow> response \<times> db" where
  "get_skills E decoded req s =
     (let userId' = userId decoded in
      case pool_query E ''SELECT * FROM skills WHERE user_id = $1''
             (select_skills_by_user_id userId') s of
        (Inl err, s1) \<Rightarrow> (json 500 (Error ''Error fetching skills''), s1)
      | (Inr rows, s1) \<Rightarrow> (json 200 (Skills rows), s1))"

definition post_skills :: "env \<Rightarrow> payload \<Rightarrow> request \<Rightarrow> db \<Rightarrow> response \<times> db" where
  "post_skills E decoded req s =
     (let skill_name' = body req ''skill_name'';
          proficiency' = body req ''proficiency'' in
      if js_not skill_name' \<or> js_not proficiency' then
        (json 400 (Error ''Please provide both skill name and proficiency''), s)
      else
        (let userId' = userId decoded in
         case pool_query E
                ''INSERT INTO skills (user_id, skill_name, proficiency) VALUES ($1, $2, $3) RETURNING *''
                (insert_skill userId' (the skill_name') (the proficiency')) s of
           (Inl err, s1) \<Rightarrow> (json 500 (Error ''Error adding skill''), s1)
         | (Inr rows, s1) \<Rightarrow>
             (json 201 (MessageSkill ''Skill added successfully'' (rows0 rows)), s1)))"

definition put_skills :: "env \<Rightarrow> payload \<Rightarrow> request \<Rightarrow> db \<Rightarrow> response \<times> db" where
  "put_skills E decoded req s =
     (let skill_name' = body req ''skill_name'';
          proficiency' = body req ''proficiency'';
          skillId = params_id req in
      if js_not skill_name' \<or> js_not proficiency' then
        (json 400 (Error ''Please provide both skill name and proficiency''), s)
      else
        (case pool_query E
                ''UPDATE skills SET skill_name = $1, proficiency = $2 WHERE id = $3 RETURNING *''
                (update_skill (the skill_name') (the proficiency') skillId) s of
           (Inl err, s1) \<Rightarrow> (json 500 (Error ''Error updating skill''), s1)
         | (Inr rows, s1) \<Rightarrow>
             if length rows = 0 then (json 404 (Error ''Skill not found''), s1)
             else (json 200 (MessageSkill ''Skill updated successfully'' (rows0 rows)), s1)))"

definition delete_skills :: "env \<Rightarrow> payload \<Rightarrow> request \<Rightarrow> db \<Rightarrow> response \<times> db" where
  "delete_skills E decoded req s =
     (let skillId = params_id req in
      case pool_query E ''DELETE FROM skills WHERE id = $1 RETURNING *''
             (delete_skill skillId) s of
        (Inl err, s1) \<Rightarrow> (json 500 (Error ''Error deleting skill''), s1)
      | (Inr rows, s1) \<Rightarrow>
          if length rows = 0 then (json 404 (Error ''Skill not found''), s1)
          else (json 200 (Message ''Skill deleted successfully''), s1))"

section \<open>The routes\<close>

text \<open>
  \<open>app.get(path, authenticate, handler)\<close>: the middleware answers the request itself, or
  attaches the decoded payload to it (\<open>req.user\<close>) and calls the handler.
\<close>

definition protected ::
  "libs \<Rightarrow> env \<Rightarrow> (payload \<Rightarrow> request \<Rightarrow> db \<Rightarrow> response \<times> db) \<Rightarrow> request \<Rightarrow> db \<Rightarrow> response \<times> db"
  where
  "protected L E handler req s =
     (case authenticate L E req of
        Inl res \<Rightarrow> (res, s)
      | Inr decoded \<Rightarrow> handler decoded req s)"

datatype route =
    GET_root | GET_users | POST_register | POST_login
  | GET_skills | POST_skills | PUT_skills_id | DELETE_skills_id

fun app :: "libs \<Rightarrow> env \<Rightarrow> route \<Rightarrow> request \<Rightarrow> db \<Rightarrow> response \<times> db" where
  "app L E GET_root = get_root"
| "app L E GET_users = protected L E (get_users E)"
| "app L E POST_register = post_register L E"
| "app L E POST_login = post_login L E"
| "app L E GET_skills = protected L E (get_skills E)"
| "app L E POST_skills = protected L E (post_skills E)"
| "app L E PUT_skills_id = protected L E (put_skills E)"
| "app L E DELETE_skills_id = protected L E (delete_skills E)"

section \<open>Sequences of requests\<close>

text \<open>
  The server handles one request after another, each in its own environment; \<open>run\<close> is
  the database after a list of requests.
\<close>

fun run :: "libs \<Rightarrow> (env \<times> route \<times> request) list \<Rightarrow> db \<Rightarrow> db" where
  "run L [] s = s"
| "run L ((E, rt, req) # evs) s = run L evs (snd (app L E rt req s))"

definition tables :: "db \<Rightarrow> user_row list \<times> skill_row list \<times> nat \<times> nat" where
  "tables s = (users s, skills s, users_id_seq s, skills_id_seq s)"

section \<open>What the theorems assume of the libraries and of the database\<close>

text \<open>
  Modelled from the spec: the contracts of the Credential Hasher (section 2: one-way
  hashing and verification; section 3: the password at rest is never the plaintext) and
  of the Token Service (section 4.1: \<open>verify\<close> returns the claims of a token that
  \<open>issue\<close> signed), whose code is in the libraries \<open>bcrypt\<close> and \<open>jsonwebtoken\<close>:
  \<^item> \<open>hasher_sound\<close>: \<open>compare\<close> accepts the hash of the same data, whatever the salt;
  \<^item> \<open>hash_differs\<close>: a hash is never the data it was computed from;
  \<^item> \<open>codec_sound\<close>: the text of a payload signed with a secret is not empty and
    decodes, under that secret, to the payload.
\<close>

definition hasher_sound :: "libs \<Rightarrow> bool" where
  "hasher_sound L \<longleftrightarrow>
     (\<forall>data rounds slt. bcrypt_compare L data (bcrypt_hash L data rounds slt))"

definition hash_differs :: "libs \<Rightarrow> bool" where
  "hash_differs L \<longleftrightarrow> (\<forall>data rounds slt. bcrypt_hash L data rounds slt \<noteq> data)"

definition codec_sound :: "libs \<Rightarrow> bool" where
  "codec_sound L \<longleftrightarrow>
     (\<forall>secret p. jwt_encode L secret p \<noteq> [] \<and>
                 jwt_decode L secret (jwt_encode L secret p) = Some p)"

text \<open>The database answers the next query sent from state \<open>s\<close>; it answers every query.\<close>

definition answers :: "env \<Rightarrow> db \<Rightarrow> bool" where
  "answers E s \<longleftrightarrow> db_fault E (length (queries s)) = None"

definition db_answers :: "env \<Rightarrow> bool" where
  "db_answers E \<longleftrightarrow> (\<forall>k. db_fault E k = None)"

text \<open>Every stored password is a hash that \<open>bcrypt.hash\<close> returned at cost 10.\<close>

definition hashed :: "libs \<Rightarrow> db \<Rightarrow> bool" where
  "hashed L s \<longleftrightarrow>
     (\<forall>u \<in> set (users s). \<exists>data slt. password u = bcrypt_hash L data 10 slt)"

text \<open>
  The sequence of \<open>skills.id\<close> is ahead of every id in the table, as it is in every
  database that started empty; and an id is gone for good when the sequence has passed
  it and no row carries it.
\<close>

definition seq_ahead :: "db \<Rightarrow> bool" where
  "seq_ahead s \<longleftrightarrow> (\<forall>k \<in> set (skills s). skills_id k < skills_id_seq s)"

definition gone :: "nat \<Rightarrow> db \<Rightarrow> bool" where
  "gone i s \<longleftrightarrow> i < skills_id_seq s \<and> (\<forall>k \<in> set (skills s). skills_id k \<noteq> i)"

section \<open>A stand-in for the libraries\<close>

text \<open>
  To run the model on concrete requests the two libraries need an instance. This one
  has the contracts above and no cryptography: a hash is the salt and the data behind
  \<open>$\<close> signs, and the text of a token is the secret and the fields of the payload, each
  string behind its length and each number in binary, closed by a dot.
\<close>

fun sample_enc_nat :: "nat \<Rightarrow> string" where
  "sample_enc_nat n =
     (if n = 0 then ''.''
      else (if odd n then CHR ''1'' else CHR ''0'') # sample_enc_nat (n div 2))"

fun sample_dec_nat :: "string \<Rightarrow> (nat \<times> string) option" where
  "sample_dec_nat [] = None"
| "sample_dec_nat (c # cs) =
     (if c = CHR ''.'' then Some (0, cs)
      else if c = CHR ''0'' \<or> c = CHR ''1'' then
        (case sample_dec_nat cs of
           None \<Rightarrow> None
         | Some (m, rest) \<Rightarrow> Some (2 * m + (if c = CHR ''1'' then 1 else 0), rest))
      else None)"

definition sample_enc_str :: "string \<Rightarrow> string" where
  "sample_enc_str x = sample_enc_nat (length x) @ x"

definition sample_dec_str :: "string \<Rightarrow> (string \<times> string) option" where
  "sample_dec_str t =
     (case sample_dec_nat t of
        None \<Rightarrow> None
      | Some (n, rest) \<Rightarrow> if n \<le> length rest then Some (take n rest, drop n rest) else None)"

definition sample_encode :: "string \<Rightarrow> payload \<Rightarrow> string" where
  "sample_encode secret p =
     sample_enc_str secret @ sample_enc_nat (userId p) @ sample_enc_str (username_claim p) @
     sample_enc_str (email_claim p) @ sample_enc_nat (iat p) @ sample_enc_nat (exp_claim p)"

definition sample_decode :: "string \<Rightarrow> string \<Rightarrow> payload option" where
  "sample_decode secret t =
     (case sample_dec_str t of None \<Rightarrow> None | Some (k, r1) \<Rightarrow>
     (if k \<noteq> secret then None else
     (case sample_dec_nat r1 of None \<Rightarrow> None | Some (uid, r2) \<Rightarrow>
     (case sample_dec_str r2 of None \<Rightarrow> None | Some (un, r3) \<Rightarrow>
     (case sample_dec_str r3 of None \<Rightarrow> None | Some (em, r4) \<Rightarrow>
     (case sample_dec_nat r4 of None \<Rightarrow> None | Some (i, r5) \<Rightarrow>
     (case sample_dec_nat r5 of None \<Rightarrow> None | Some (e, r6) \<Rightarrow>
     (if r6 \<noteq> [] then None
      else Some \<lparr>userId = uid, username_claim = un, email_claim = em,
                  iat = i, exp_claim = e\<rparr>))))))))"

definition sample_hash :: "string \<Rightarrow> nat \<Rightarrow> string \<Rightarrow> string" where
  "sample_hash data rounds slt = CHR ''$'' # slt @ CHR ''$'' # data"

definition sample_compare :: "string \<Rightarrow> string \<Rightarrow> bool" where
  "sample_compare data encrypted \<longleftrightarrow>
     drop (length encrypted - Suc (length data)) encrypted = CHR ''$'' # data"

definition sample_libs :: libs where
  "sample_libs =
     \<lparr>bcrypt_hash = sample_hash, bcrypt_compare = sample_compare,
      jwt_encode = sample_encode, jwt_decode = sample_decode\<rparr>"

text \<open>Sample data: an empty database, and an environment whose database answers.\<close>

definition db0 :: db where
  "db0 = \<lparr>users = [], skills = [], users_id_seq = 1, skills_id_seq = 1, queries = []\<rparr>"

definition env_at :: "nat \<Rightarrow> env" where
  "env_at t = \<lparr>now = t, salt = ''s'', db_fault = (\<lambda>k. None)\<rparr>"

definition req_of :: "string option \<Rightarrow> (string \<times> string) list \<Rightarrow> nat \<Rightarrow> request" where
  "req_of h kvs i = \<lparr>authorization = h, body = map_of kvs, params_id = i\<rparr>"

text \<open>
  The scenario of the spec: alice registers with the password \<open>pw1\<close> and owns the skill
  Go; bob is a second user. A token of each, issued at time 0 for one hour.
\<close>

definition alice_row :: user_row where
  "alice_row = \<lparr>users_id = 1, username = ''alice'', email = ''a@x.com'', password = ''$s$pw1''\<rparr>"

definition go_skill :: skill_row where
  "go_skill = \<lparr>skills_id = 1, user_id = 1, skill_name = ''Go'', proficiency = ''expert''\<rparr>"

definition db1 :: db where
  "db1 = \<lparr>users = [alice_row], skills = [], users_id_seq = 2, skills_id_seq = 1, queries = []\<rparr>"

definition db2 :: db where
  "db2 = \<lparr>users = [alice_row], skills = [go_skill], users_id_seq = 2, skills_id_seq = 2,
          queries = []\<rparr>"

definition alice_reg :: request where
  "alice_reg =
     req_of None [(''username'', ''alice''), (''email'', ''a@x.com''), (''password'', ''pw1'')] 0"

definition alice_login :: request where
  "alice_login = req_of None [(''email'', ''a@x.com''), (''password'', ''pw1'')] 0"

definition alice :: payload where
  "alice = \<lparr>userId = 1, username_claim = ''alice'', email_claim = ''a@x.com'',
            iat = 0, exp_claim = 3600\<rparr>"

definition bob :: payload where
  "bob = \<lparr>userId = 2, username_claim = ''bob'', email_claim = ''b@x.com'',
          iat = 0, exp_claim = 3600\<rparr>"

definition bearer :: "payload \<Rightarrow> string option" where
  "bearer p = Some (''Bearer '' @ sample_encode secret_key p)"

section \<open>Lists, strings and the stand-in\<close>

lemma rows0_filter: "rows0 (filter P xs) = find P xs"
  by (induction xs) (auto simp: rows0_def)

lemma rows0_map: "rows0 (map f xs) = map_option f (rows0 xs)"
  by (cases xs) (auto simp: rows0_def)

lemma filter_Nil_find: "filter P xs = [] \<longleftrightarrow> find P xs = None"
  by (auto simp: find_None_iff filter_empty_conv)

lemma find_SomeD: "find P xs = Some x \<Longrightarrow> x \<in> set xs \<and> P x"
  by (induction xs) (auto split: if_splits)

lemma map_unchanged: "(\<And>x. x \<in> set xs \<Longrightarrow> f x = x) \<Longrightarrow> map f xs = xs"
  by (induction xs) auto

lemma replace_first_prefix: "replace_first pat rep (pat @ t) = rep @ t"
proof (cases "pat @ t")
  case Nil
  then show ?thesis by simp
next
  case (Cons c cs)
  have "prefix pat (pat @ t)" by simp
  moreover have "drop (length pat) (pat @ t) = t" by simp
  ultimately show ?thesis unfolding Cons by simp
qed

lemma replace_first_absent: "\<not> sublist pat h \<Longrightarrow> replace_first pat rep h = h"
proof (induction h)
  case Nil
  then show ?case by auto
next
  case (Cons c cs)
  then show ?case by (auto simp: sublist_Cons_right)
qed

lemma replace_first_empty:
  "pat \<noteq> [] \<Longrightarrow> replace_first pat [] h = [] \<longleftrightarrow> h = [] \<or> h = pat"
proof (cases h)
  case Nil
  then show ?thesis by simp
next
  case (Cons c cs)
  assume "pat \<noteq> []"
  show ?thesis
  proof
    assume "replace_first pat [] h = []"
    with Cons have p: "prefix pat h" and l: "length h \<le> length pat"
      by (auto split: if_splits)
    from p obtain r where "h = pat @ r" by (auto simp: prefix_def)
    with l show "h = [] \<or> h = pat" by auto
  next
    assume "h = [] \<or> h = pat"
    with Cons show "replace_first pat [] h = []" by auto
  qed
qed

lemma strip_bearer: "replace_first ''Bearer '' [] (''Bearer '' @ tok) = tok"
  using replace_first_prefix [of "''Bearer ''" "[]" tok] by simp

lemma sample_nat_roundtrip: "sample_dec_nat (sample_enc_nat n @ r) = Some (n, r)"
proof (induction n rule: sample_enc_nat.induct)
  case (1 n)
  show ?case
  proof (cases "n = 0")
    case True
    then show ?thesis by simp
  next
    case False
    with 1 have "sample_dec_nat (sample_enc_nat (n div 2) @ r) = Some (n div 2, r)" by simp
    with False show ?thesis
      by (subst sample_enc_nat.simps) (auto simp del: sample_enc_nat.simps elim: oddE)
  qed
qed

lemma sample_str_roundtrip: "sample_dec_str (sample_enc_str x @ r) = Some (x, r)"
  by (simp add: sample_dec_str_def sample_enc_str_def sample_nat_roundtrip
      del: sample_enc_nat.simps)

lemma sample_codec: "sample_decode k (sample_encode k p) = Some p"
  using sample_nat_roundtrip [of "exp_claim p" "[]"]
  by (simp add: sample_decode_def sample_encode_def sample_str_roundtrip sample_nat_roundtrip
      del: sample_enc_nat.simps)

lemma sample_encode_nonempty: "sample_encode k p \<noteq> []"
  by (simp add: sample_encode_def sample_enc_str_def)

lemma sample_codec_sound: "codec_sound sample_libs"
  by (simp add: codec_sound_def sample_libs_def sample_codec sample_encode_nonempty)

lemma sample_hasher_sound: "hasher_sound sample_libs"
  by (simp add: hasher_sound_def sample_libs_def sample_hash_def sample_compare_def)

lemma sample_hash_differs: "hash_differs sample_libs"
proof -
  have "length (sample_hash d r s) \<noteq> length d" for d r s
    by (simp add: sample_hash_def)
  then have "sample_hash d r s \<noteq> d" for d r s by metis
  then show ?thesis by (simp add: hash_differs_def sample_libs_def)
qed

lemma env_at_answers: "answers (env_at t) s"
  by (simp add: answers_def env_at_def)

section \<open>The token service and the middleware\<close>

lemma verify_issued:
  assumes "codec_sound L"
  shows "jwt_verify L (jwt_sign L c k ttl t0) k t =
     (if t0 + ttl < t then Inl Expired
      else Inr \<lparr>userId = userId c, username_claim = username_claim c,
                email_claim = email_claim c, iat = t0, exp_claim = t0 + ttl\<rparr>)"
  using assms by (simp add: codec_sound_def jwt_verify_def jwt_sign_def)

lemma sign_nonempty: "codec_sound L \<Longrightarrow> jwt_sign L c k ttl t0 \<noteq> []"
  by (simp add: codec_sound_def jwt_sign_def)

lemma authenticate_Inl: "authenticate L E req = Inl r \<Longrightarrow> status r = 401 \<or> status r = 400"
  by (auto simp: authenticate_def json_def Let_def split: if_splits sum.splits)

lemma authenticate_encoded:
  assumes "codec_sound L" and "now E \<le> exp_claim p"
    and "authorization req = Some (''Bearer '' @ jwt_encode L secret_key p)"
  shows "authenticate L E req = Inr p"
  using assms
  by (simp add: authenticate_def js_not_def strip_bearer codec_sound_def jwt_verify_def Let_def)

lemma authenticate_expired:
  assumes codec: "codec_sound L" and late: "t0 + ttl < now E"
    and hdr: "authorization req = Some (''Bearer '' @ jwt_sign L c secret_key ttl t0)"
  shows "authenticate L E req = Inl (json 400 (Error ''Invalid token''))"
  using hdr late sign_nonempty [OF codec, of c secret_key ttl t0]
  by (simp add: authenticate_def js_not_def strip_bearer verify_issued [OF codec] Let_def)

lemma sample_authenticate:
  "t \<le> exp_claim p \<Longrightarrow> authenticate sample_libs (env_at t) (req_of (bearer p) kvs i) = Inr p"
  by (rule authenticate_encoded [OF sample_codec_sound])
    (simp_all add: env_at_def req_of_def bearer_def sample_libs_def)

lemma protected_pass: "authenticate L E req = Inr d \<Longrightarrow> protected L E h req s = h d req s"
  by (simp add: protected_def)

lemma protected_stop: "authenticate L E req = Inl r \<Longrightarrow> protected L E h req s = (r, s)"
  by (simp add: protected_def)

section \<open>The handlers, one query at a time\<close>

lemma pool_query_answered:
  "db_fault E (length (queries s)) = None \<Longrightarrow>
   pool_query E sql stmt s =
     (Inr (fst (stmt (s\<lparr>queries := queries s @ [sql]\<rparr>))),
      snd (stmt (s\<lparr>queries := queries s @ [sql]\<rparr>)))"
  by (simp add: pool_query_def Let_def split: prod.splits)

lemma register_users:
  "users (snd (post_register L E req s)) = users s \<and>
     status (fst (post_register L E req s)) \<noteq> 201 \<or>
   status (fst (post_register L E req s)) = 201 \<and>
   fst (post_register L E req s) = json 201 (MessageUser ''User registered successfully''
       (Some \<lparr>users_id = users_id_seq s, username = the (body req ''username''),
              email = the (body req ''email''),
              password = bcrypt_hash L (the (body req ''password'')) 10 (salt E)\<rparr>)) \<and>
   users (snd (post_register L E req s)) = users s @
       [\<lparr>users_id = users_id_seq s, username = the (body req ''username''),
         email = the (body req ''email''),
         password = bcrypt_hash L (the (body req ''password'')) 10 (salt E)\<rparr>] \<and>
   (\<forall>r \<in> set (users s). email r \<noteq> the (body req ''email''))"
  by (auto simp: post_register_def json_def pool_query_def select_users_by_email_def
      select_users_by_username_def insert_user_def rows0_def Let_def filter_empty_conv
      split: if_splits option.splits)

lemma post_login_answered:
  assumes "\<not> js_not (body req ''email'')" "\<not> js_not (body req ''password'')" "answers E s"
  shows "fst (post_login L E req s) =
     (case find (\<lambda>r. email r = the (body req ''email'')) (users s) of
        None \<Rightarrow> json 404 (Error ''User not found'')
      | Some user \<Rightarrow>
          if bcrypt_compare L (the (body req ''password'')) (password user) then
            json 200 (MessageToken ''Login successful''
              (jwt_sign L \<lparr>userId = users_id user, username_claim = username user,
                           email_claim = email user\<rparr> secret_key expiresIn (now E)))
          else json 401 (Error ''Incorrect password''))"
  using assms
  by (simp add: post_login_def answers_def pool_query_answered select_users_by_email_def
      rows0_filter Let_def split: option.splits)

lemma login_200:
  assumes "status (fst (post_login L E req s)) = 200"
  shows "\<exists>user. find (\<lambda>r. email r = the (body req ''email'')) (users s) = Some user \<and>
     bcrypt_compare L (the (body req ''password'')) (password user) \<and>
     fst (post_login L E req s) = json 200 (MessageToken ''Login successful''
       (jwt_sign L \<lparr>userId = users_id user, username_claim = username user,
                    email_claim = email user\<rparr> secret_key expiresIn (now E)))"
  using assms
  by (auto simp: post_login_def json_def pool_query_def select_users_by_email_def
      rows0_filter Let_def split: if_splits option.splits)

lemma get_skills_answered:
  "answers E s \<Longrightarrow> get_skills E d req s =
     (json 200 (Skills (filter (\<lambda>k. user_id k = userId d) (skills s))),
      s\<lparr>queries := queries s @ [''SELECT * FROM skills WHERE user_id = $1'']\<rparr>)"
  by (simp add: get_skills_def answers_def pool_query_answered select_skills_by_user_id_def
      Let_def)

lemma put_skills_answered:
  assumes "\<not> js_not (body req ''skill_name'')" "\<not> js_not (body req ''proficiency'')"
    "answers E s"
  shows "fst (put_skills E d req s) =
     (case find (\<lambda>k. skills_id k = params_id req) (skills s) of
        None \<Rightarrow> json 404 (Error ''Skill not found'')
      | Some k \<Rightarrow> json 200 (MessageSkill ''Skill updated successfully''
          (Some (k\<lparr>skill_name := the (body req ''skill_name''),
                   proficiency := the (body req ''proficiency'')\<rparr>))))"
    and "skills (snd (put_skills E d req s)) =
      map (\<lambda>k. if skills_id k = params_id req
               then k\<lparr>skill_name := the (body req ''skill_name''),
                      proficiency := the (body req ''proficiency'')\<rparr>
               else k) (skills s)"
    and "users (snd (put_skills E d req s)) = users s"
    and "skills_id_seq (snd (put_skills E d req s)) = skills_id_seq s"
    and "users_id_seq (snd (put_skills E d req s)) = users_id_seq s"
  using assms
  by (simp_all add: put_skills_def answers_def pool_query_answered update_skill_def
      rows0_map rows0_filter filter_Nil_find Let_def split: option.splits)

lemma delete_skills_answered:
  assumes "answers E s"
  shows "fst (delete_skills E d req s) =
     (case find (\<lambda>k. skills_id k = params_id req) (skills s) of
        None \<Rightarrow> json 404 (Error ''Skill not found'')
      | Some k \<Rightarrow> json 200 (Message ''Skill deleted successfully''))"
    and "skills (snd (delete_skills E d req s)) =
      filter (\<lambda>k. skills_id k \<noteq> params_id req) (skills s)"
    and "users (snd (delete_skills E d req s)) = users s"
    and "skills_id_seq (snd (delete_skills E d req s)) = skills_id_seq s"
    and "users_id_seq (snd (delete_skills E d req s)) = users_id_seq s"
  using assms
  by (simp_all add: delete_skills_def answers_def pool_query_answered delete_skill_def
      filter_Nil_find Let_def split: option.splits)

lemma absent_404:
  assumes "\<forall>k \<in> set (skills s). skills_id k \<noteq> params_id req" and "answers E s"
  shows "fst (delete_skills E d req s) = json 404 (Error ''Skill not found'')"
    and "\<not> js_not (body req ''skill_name'') \<Longrightarrow> \<not> js_not (body req ''proficiency'') \<Longrightarrow>
         fst (put_skills E d req s) = json 404 (Error ''Skill not found'')"
proof -
  from assms(1) have "find (\<lambda>k. skills_id k = params_id req) (skills s) = None"
    by (auto simp: find_None_iff)
  then show "fst (delete_skills E d req s) = json 404 (Error ''Skill not found'')"
    and "\<not> js_not (body req ''skill_name'') \<Longrightarrow> \<not> js_not (body req ''proficiency'') \<Longrightarrow>
         fst (put_skills E d req s) = json 404 (Error ''Skill not found'')"
    by (simp_all add: delete_skills_answered [OF assms(2)] put_skills_answered [OF _ _ assms(2)])
qed

lemma delete_200:
  assumes "status (fst (app L E DELETE_skills_id req s)) = 200"
  shows "\<exists>d. authenticate L E req = Inr d" and "answers E s"
    and "\<exists>k \<in> set (skills s). skills_id k = params_id req"
proof -
  show a: "\<exists>d. authenticate L E req = Inr d"
  proof (cases "authenticate L E req")
    case (Inl r)
    with assms authenticate_Inl [OF Inl] show ?thesis by (auto simp: protected_def)
  next
    case (Inr d)
    then show ?thesis by blast
  qed
  then obtain d where d: "authenticate L E req = Inr d" ..
  from assms show b: "answers E s"
    by (auto simp: protected_pass [OF d] answers_def delete_skills_def pool_query_def
        json_def Let_def split: option.splits)
  from assms show "\<exists>k \<in> set (skills s). skills_id k = params_id req"
    by (auto simp: protected_pass [OF d] delete_skills_answered [OF b] json_def
        dest: find_SomeD split: option.splits)
qed

section \<open>What a request leaves in the tables\<close>

lemma handler_users:
  "users (snd (get_users E d req s)) = users s"
  "users (snd (get_skills E d req s)) = users s"
  "users (snd (post_skills E d req s)) = users s"
  "users (snd (put_skills E d req s)) = users s"
  "users (snd (delete_skills E d req s)) = users s"
  "users (snd (post_login L E req s)) = users s"
  by (auto simp: get_users_def get_skills_def post_skills_def put_skills_def delete_skills_def
      post_login_def pool_query_def select_users_def select_skills_by_user_id_def
      insert_skill_def update_skill_def delete_skill_def select_users_by_email_def Let_def
      split: option.splits if_splits)

lemma protected_users:
  assumes "\<And>d. users (snd (h d req s)) = users s"
  shows "users (snd (protected L E h req s)) = users s"
  using assms by (cases "authenticate L E req") (simp_all add: protected_def)

lemma app_users:
  "users (snd (app L E rt req s)) = users s \<or>
   rt = POST_register \<and>
   users (snd (app L E rt req s)) = users s @
       [\<lparr>users_id = users_id_seq s, username = the (body req ''username''),
         email = the (body req ''email''),
         password = bcrypt_hash L (the (body req ''password'')) 10 (salt E)\<rparr>] \<and>
   (\<forall>r \<in> set (users s). email r \<noteq> the (body req ''email''))"
proof (cases rt)
  case GET_root
  then show ?thesis by (simp add: get_root_def)
next
  case GET_users
  then show ?thesis by (simp add: protected_users handler_users)
next
  case POST_register
  with register_users [of L E req s] show ?thesis by auto
next
  case POST_login
  then show ?thesis by (simp add: handler_users)
next
  case GET_skills
  then show ?thesis by (simp add: protected_users handler_users)
next
  case POST_skills
  then show ?thesis by (simp add: protected_users handler_users)
next
  case PUT_skills_id
  then show ?thesis by (simp add: protected_users handler_users)
next
  case DELETE_skills_id
  then show ?thesis by (simp add: protected_users handler_users)
qed

lemma app_hashed: "hashed L s \<Longrightarrow> hashed L (snd (app L E rt req s))"
  using app_users [of L E rt req s] by (fastforce simp: hashed_def)

lemma run_hashed: "hashed L s \<Longrightarrow> hashed L (run L evs s)"
  by (induction evs arbitrary: s) (auto simp: app_hashed)

lemma app_email_kept:
  assumes "filter (\<lambda>r. email r = e) (users s) \<noteq> []"
  shows "filter (\<lambda>r. email r = e) (users (snd (app L E rt req s))) =
         filter (\<lambda>r. email r = e) (users s)"
  using app_users [of L E rt req s] assms by (auto simp: filter_empty_conv)

lemma run_email_kept:
  "filter (\<lambda>r. email r = e) (users s) \<noteq> [] \<Longrightarrow>
   filter (\<lambda>r. email r = e) (users (run L evs s)) = filter (\<lambda>r. email r = e) (users s)"
  by (induction evs arbitrary: s) (auto simp: app_email_kept)

lemma handler_skills_seq:
  "skills_id_seq (snd (get_users E d req s)) = skills_id_seq s \<and>
   skills (snd (get_users E d req s)) = skills s"
  "skills_id_seq (snd (get_skills E d req s)) = skills_id_seq s \<and>
   skills (snd (get_skills E d req s)) = skills s"
  "skills_id_seq (snd (post_login L E req s)) = skills_id_seq s \<and>
   skills (snd (post_login L E req s)) = skills s"
  "skills_id_seq (snd (post_register L E req s)) = skills_id_seq s \<and>
   skills (snd (post_register L E req s)) = skills s"
  by (auto simp: get_users_def get_skills_def post_login_def post_register_def pool_query_def
      select_users_def select_skills_by_user_id_def select_users_by_email_def
      select_users_by_username_def insert_user_def Let_def
      split: option.splits if_splits)

lemma get_users_gone: "gone i s \<Longrightarrow> gone i (snd (get_users E d req s))"
  by (simp add: gone_def handler_skills_seq)

lemma get_skills_gone: "gone i s \<Longrightarrow> gone i (snd (get_skills E d req s))"
  by (simp add: gone_def handler_skills_seq)

lemma post_skills_gone: "gone i s \<Longrightarrow> gone i (snd (post_skills E d req s))"
  by (auto simp: gone_def post_skills_def pool_query_def insert_skill_def Let_def
      split: option.splits)

lemma put_skills_gone: "gone i s \<Longrightarrow> gone i (snd (put_skills E d req s))"
  by (auto simp: gone_def put_skills_def pool_query_def update_skill_def Let_def
      split: option.splits if_splits)

lemma delete_skills_gone: "gone i s \<Longrightarrow> gone i (snd (delete_skills E d req s))"
  by (auto simp: gone_def delete_skills_def pool_query_def delete_skill_def Let_def
      split: option.splits if_splits)

lemma protected_gone:
  assumes "\<And>d. gone i s \<Longrightarrow> gone i (snd (h d req s))" and "gone i s"
  shows "gone i (snd (protected L E h req s))"
  using assms by (cases "authenticate L E req") (simp_all add: protected_def)

lemma app_gone: "gone i s \<Longrightarrow> gone i (snd (app L E rt req s))"
proof (cases rt)
  case GET_root
  then show "gone i s \<Longrightarrow> ?thesis" by (simp add: get_root_def)
next
  case GET_users
  then show "gone i s \<Longrightarrow> ?thesis" by (auto intro!: protected_gone get_users_gone)
next
  case POST_register
  then show "gone i s \<Longrightarrow> ?thesis" by (simp add: gone_def handler_skills_seq)
next
  case POST_login
  then show "gone i s \<Longrightarrow> ?thesis" by (simp add: gone_def handler_skills_seq)
next
  case GET_skills
  then show "gone i s \<Longrightarrow> ?thesis" by (auto intro!: protected_gone get_skills_gone)
next
  case POST_skills
  then show "gone i s \<Longrightarrow> ?thesis" by (auto intro!: protected_gone post_skills_gone)
next
  case PUT_skills_id
  then show "gone i s \<Longrightarrow> ?thesis" by (auto intro!: protected_gone put_skills_gone)
next
  case DELETE_skills_id
  then show "gone i s \<Longrightarrow> ?thesis" by (auto intro!: protected_gone delete_skills_gone)
qed

lemma run_gone: "gone i s \<Longrightarrow> gone i (run L evs s)"
  by (induction evs arbitrary: s) (auto simp: app_gone)

section \<open>Registration\<close>

text \<open>
  C3. Registration answers 400 when any of username, email, password is missing (or
  empty). Otherwise, when the database answers: 400 \<open>Email already exists\<close> if a row
  has the email, whatever the username; else 400 \<open>Username already exists\<close> if a row has
  the username; else it inserts the row with the hashed password and answers 201 with
  that row. A 201 is only ever answered when all three fields are there and no row has
  the email or the username, and any other answer leaves the tables as they were.
\<close>

theorem register_cases:
  fixes L E req s
  defines "u \<equiv> body req ''username''" and "e \<equiv> body req ''email''"
    and "p \<equiv> body req ''password''"
  defines "res \<equiv> post_register L E req s"
  defines "row \<equiv> \<lparr>users_id = users_id_seq s, username = the u, email = the e,
                   password = bcrypt_hash L (the p) 10 (salt E)\<rparr>"
  shows
  "(js_not u \<or> js_not e \<or> js_not p \<longrightarrow>
      res = (json 400 (Error ''Please provide all required fields (username, email, password)''), s)) \<and>
   (\<not> js_not u \<and> \<not> js_not e \<and> \<not> js_not p \<and> db_answers E \<longrightarrow>
      (if \<exists>r \<in> set (users s). email r = the e then
         fst res = json 400 (Error ''Email already exists'') \<and> tables (snd res) = tables s
       else if \<exists>r \<in> set (users s). username r = the u then
         fst res = json 400 (Error ''Username already exists'') \<and> tables (snd res) = tables s
       else
         fst res = json 201 (MessageUser ''User registered successfully'' (Some row)) \<and>
         users (snd res) = users s @ [row] \<and> skills (snd res) = skills s)) \<and>
   (status (fst res) = 201 \<longrightarrow>
      \<not> js_not u \<and> \<not> js_not e \<and> \<not> js_not p \<and>
      (\<forall>r \<in> set (users s). email r \<noteq> the e) \<and> (\<forall>r \<in> set (users s). username r \<noteq> the u)) \<and>
   (status (fst res) \<noteq> 201 \<longrightarrow> tables (snd res) = tables s)"
proof -
  have missing: "js_not u \<or> js_not e \<or> js_not p \<Longrightarrow>
      res = (json 400 (Error ''Please provide all required fields (username, email, password)''), s)"
    by (auto simp: res_def u_def e_def p_def post_register_def)
  have answered: "\<not> js_not u \<Longrightarrow> \<not> js_not e \<Longrightarrow> \<not> js_not p \<Longrightarrow> db_answers E \<Longrightarrow>
      (if \<exists>r \<in> set (users s). email r = the e then
         fst res = json 400 (Error ''Email already exists'') \<and> tables (snd res) = tables s
       else if \<exists>r \<in> set (users s). username r = the u then
         fst res = json 400 (Error ''Username already exists'') \<and> tables (snd res) = tables s
       else
         fst res = json 201 (MessageUser ''User registered successfully'' (Some row)) \<and>
         users (snd res) = users s @ [row] \<and> skills (snd res) = skills s)"
    by (simp add: res_def u_def e_def p_def row_def post_register_def db_answers_def
        pool_query_answered select_users_by_email_def select_users_by_username_def
        insert_user_def rows0_def tables_def Let_def filter_empty_conv)
  have created: "status (fst res) = 201 \<Longrightarrow>
      \<not> js_not u \<and> \<not> js_not e \<and> \<not> js_not p \<and>
      (\<forall>r \<in> set (users s). email r \<noteq> the e) \<and> (\<forall>r \<in> set (users s). username r \<noteq> the u)"
    by (auto simp: res_def u_def e_def p_def post_register_def json_def
        pool_query_def select_users_by_email_def select_users_by_username_def
        Let_def filter_empty_conv split: if_splits option.splits)
  have kept: "status (fst res) \<noteq> 201 \<Longrightarrow> tables (snd res) = tables s"
    by (auto simp: res_def u_def e_def p_def post_register_def json_def
        pool_query_def select_users_by_email_def select_users_by_username_def insert_user_def
        tables_def Let_def split: if_splits option.splits)
  from missing answered created kept show ?thesis by blast
qed

theorem register_cases_witness:
  "db_answers (env_at 0) \<and>
   fst (post_register sample_libs (env_at 0) alice_reg db0) =
     json 201 (MessageUser ''User registered successfully'' (Some alice_row)) \<and>
   users (snd (post_register sample_libs (env_at 0) alice_reg db0)) = [alice_row] \<and>
   fst (post_register sample_libs (env_at 0) alice_reg db1) =
     json 400 (Error ''Email already exists'') \<and>
   fst (post_register sample_libs (env_at 0)
         (req_of None [(''username'', ''alice''), (''email'', ''al@x.com''), (''password'', ''pw2'')] 0)
         db1) =
     json 400 (Error ''Username already exists'') \<and>
   post_register sample_libs (env_at 0)
     (req_of None [(''username'', ''alice''), (''email'', ''a@x.com'')] 0) db0 =
     (json 400 (Error ''Please provide all required fields (username, email, password)''), db0)"
  using register_cases [where L = sample_libs and E = "env_at 0" and req = alice_reg and s = db0]
    register_cases [where L = sample_libs and E = "env_at 0" and req = alice_reg and s = db1]
    register_cases [where L = sample_libs and E = "env_at 0" and s = db1 and req =
      "req_of None [(''username'', ''alice''), (''email'', ''al@x.com''), (''password'', ''pw2'')] 0"]
    register_cases [where L = sample_libs and E = "env_at 0" and s = db0 and req =
      "req_of None [(''username'', ''alice''), (''email'', ''a@x.com'')] 0"]
  by (simp add: db_answers_def alice_reg_def req_of_def js_not_def db0_def db1_def
      alice_row_def sample_libs_def sample_hash_def env_at_def)

section \<open>Login\<close>

text \<open>
  C4. Login answers 400 when email or password is missing (or empty), before anything
  is looked up. With both there and a database that answers, it answers 404 when no row
  has the email, whatever the password, and for the first row with the email it answers
  401 when the stored hash does not verify against the submitted password, 200 with a
  token of that row's id, username and email when it does. Login never changes the
  tables.
\<close>

theorem login_cases:
  fixes L E req s
  defines "e \<equiv> body req ''email''" and "p \<equiv> body req ''password''"
  defines "res \<equiv> post_login L E req s"
  shows
  "(js_not e \<or> js_not p \<longrightarrow>
      res = (json 400 (Error ''Please provide both email and password''), s)) \<and>
   (\<not> js_not e \<and> \<not> js_not p \<and> answers E s \<longrightarrow>
      (case find (\<lambda>r. email r = the e) (users s) of
         None \<Rightarrow> fst res = json 404 (Error ''User not found'')
       | Some user \<Rightarrow>
           if bcrypt_compare L (the p) (password user) then
             fst res = json 200 (MessageToken ''Login successful''
               (jwt_sign L \<lparr>userId = users_id user, username_claim = username user,
                            email_claim = email user\<rparr> secret_key expiresIn (now E)))
           else fst res = json 401 (Error ''Incorrect password''))) \<and>
   tables (snd res) = tables s"
proof -
  have missing: "js_not e \<or> js_not p \<Longrightarrow>
      res = (json 400 (Error ''Please provide both email and password''), s)"
    by (auto simp: res_def e_def p_def post_login_def)
  have answered: "\<not> js_not e \<Longrightarrow> \<not> js_not p \<Longrightarrow> answers E s \<Longrightarrow>
      (case find (\<lambda>r. email r = the e) (users s) of
         None \<Rightarrow> fst res = json 404 (Error ''User not found'')
       | Some user \<Rightarrow>
           if bcrypt_compare L (the p) (password user) then
             fst res = json 200 (MessageToken ''Login successful''
               (jwt_sign L \<lparr>userId = users_id user, username_claim = username user,
                            email_claim = email user\<rparr> secret_key expiresIn (now E)))
           else fst res = json 401 (Error ''Incorrect password''))"
    by (simp add: res_def e_def p_def post_login_answered split: option.splits)
  have kept: "tables (snd res) = tables s"
    by (auto simp: res_def e_def p_def post_login_def pool_query_def
        select_users_by_email_def tables_def Let_def split: if_splits option.splits)
  from missing answered kept show ?thesis by blast
qed

theorem login_cases_witness:
  "answers (env_at 0) db0 \<and> answers (env_at 0) db1 \<and>
   post_login sample_libs (env_at 0) (req_of None [(''email'', ''nobody@x.com'')] 0) db1 =
     (json 400 (Error ''Please provide both email and password''), db1) \<and>
   fst (post_login sample_libs (env_at 0) alice_login db0) = json 404 (Error ''User not found'') \<and>
   fst (post_login sample_libs (env_at 0)
          (req_of None [(''email'', ''a@x.com''), (''password'', ''pw2'')] 0) db1) =
     json 401 (Error ''Incorrect password'') \<and>
   status (fst (post_login sample_libs (env_at 0) alice_login db1)) = 200"
  using
    login_cases [where L = sample_libs and E = "env_at 0" and s = db1 and req =
      "req_of None [(''email'', ''nobody@x.com'')] 0"]
    login_cases [where L = sample_libs and E = "env_at 0" and s = db0 and req = alice_login]
    login_cases [where L = sample_libs and E = "env_at 0" and s = db1 and req =
      "req_of None [(''email'', ''a@x.com''), (''password'', ''pw2'')] 0"]
    login_cases [where L = sample_libs and E = "env_at 0" and s = db1 and req = alice_login]
  by (simp add: answers_def alice_login_def req_of_def js_not_def db0_def db1_def
      alice_row_def sample_libs_def sample_compare_def env_at_def json_def)

section \<open>Empty strings\<close>

text \<open>
  C10. A required field that is present and equal to the empty string is treated as a
  missing one: registration, add-skill and update-skill answer 400 and return the
  database as it was, trace of queries included, so no query was sent. On the two
  protected routes the middleware runs first and sends no query either.
\<close>

theorem empty_string_is_missing:
  fixes L E req s decoded
  defines "reg \<equiv> body req ''username'' = Some [] \<or> body req ''email'' = Some [] \<or>
                  body req ''password'' = Some []"
    and "skl \<equiv> body req ''skill_name'' = Some [] \<or> body req ''proficiency'' = Some []"
  shows
  "(reg \<longrightarrow> post_register L E req s =
      (json 400 (Error ''Please provide all required fields (username, email, password)''), s)) \<and>
   (skl \<longrightarrow>
      post_skills E decoded req s =
        (json 400 (Error ''Please provide both skill name and proficiency''), s) \<and>
      put_skills E decoded req s =
        (json 400 (Error ''Please provide both skill name and proficiency''), s)) \<and>
   (reg \<longrightarrow> queries (snd (app L E POST_register req s)) = queries s) \<and>
   (skl \<longrightarrow> snd (app L E POST_skills req s) = s \<and> snd (app L E PUT_skills_id req s) = s)"
proof -
  have r: "reg \<Longrightarrow> post_register L E req s =
      (json 400 (Error ''Please provide all required fields (username, email, password)''), s)"
    by (auto simp: reg_def post_register_def js_not_def)
  have a: "skl \<Longrightarrow> post_skills E d req s =
        (json 400 (Error ''Please provide both skill name and proficiency''), s)" for d
    by (auto simp: skl_def post_skills_def js_not_def)
  have u: "skl \<Longrightarrow> put_skills E d req s =
        (json 400 (Error ''Please provide both skill name and proficiency''), s)" for d
    by (auto simp: skl_def put_skills_def js_not_def)
  have qa: "skl \<Longrightarrow> snd (app L E POST_skills req s) = s"
    by (cases "authenticate L E req") (simp_all add: protected_def a)
  have qu: "skl \<Longrightarrow> snd (app L E PUT_skills_id req s) = s"
    by (cases "authenticate L E req") (simp_all add: protected_def u)
  from r a u qa qu show ?thesis by simp
qed

theorem empty_string_is_missing_witness:
  "post_register sample_libs (env_at 0)
     (req_of None [(''username'', ''alice''), (''email'', []), (''password'', ''pw1'')] 0) db0 =
     (json 400 (Error ''Please provide all required fields (username, email, password)''), db0) \<and>
   post_skills (env_at 0) alice
     (req_of (bearer alice) [(''skill_name'', ''Go''), (''proficiency'', [])] 0) db1 =
     (json 400 (Error ''Please provide both skill name and proficiency''), db1) \<and>
   put_skills (env_at 0) alice
     (req_of (bearer alice) [(''skill_name'', []), (''proficiency'', ''expert'')] 1) db2 =
     (json 400 (Error ''Please provide both skill name and proficiency''), db2)"
  using
    empty_string_is_missing [where L = sample_libs and E = "env_at 0" and s = db0 and req =
      "req_of None [(''username'', ''alice''), (''email'', []), (''password'', ''pw1'')] 0"]
    empty_string_is_missing [where E = "env_at 0" and s = db1 and decoded = alice and req =
      "req_of (bearer alice) [(''skill_name'', ''Go''), (''proficiency'', [])] 0"]
    empty_string_is_missing [where E = "env_at 0" and s = db2 and decoded = alice and req =
      "req_of (bearer alice) [(''skill_name'', []), (''proficiency'', ''expert'')] 1"]
  by (simp add: req_of_def)

section \<open>Adding a skill\<close>

text \<open>
  C6. On an authenticated add-skill request whose skill_name and proficiency are there
  (and not empty), and whose query the database answers, the inserted row carries the
  userId of the verified token as its user_id, and the answer is 201 with that row.
  Any other field of the body, an identifier included, changes nothing. When skill_name
  or proficiency is missing the answer is 400 and nothing is inserted.
\<close>

theorem add_skill_owner:
  fixes L E req s decoded
  defines "n \<equiv> body req ''skill_name''" and "p \<equiv> body req ''proficiency''"
  defines "res \<equiv> app L E POST_skills req s"
  defines "row \<equiv> \<lparr>skills_id = skills_id_seq s, user_id = userId decoded,
                   skill_name = the n, proficiency = the p\<rparr>"
  assumes auth: "authenticate L E req = Inr decoded"
  shows
  "(\<not> js_not n \<and> \<not> js_not p \<and> answers E s \<longrightarrow>
      fst res = json 201 (MessageSkill ''Skill added successfully'' (Some row)) \<and>
      skills (snd res) = skills s @ [row] \<and> users (snd res) = users s) \<and>
   (js_not n \<or> js_not p \<longrightarrow>
      res = (json 400 (Error ''Please provide both skill name and proficiency''), s)) \<and>
   (k \<noteq> ''skill_name'' \<and> k \<noteq> ''proficiency'' \<longrightarrow>
      app L E POST_skills (req\<lparr>body := (body req)(k := v)\<rparr>) s = res)"
proof -
  have auth': "authenticate L E (req\<lparr>body := b\<rparr>) = Inr decoded" for b
    using auth by (simp add: authenticate_def)
  have ok: "\<not> js_not n \<Longrightarrow> \<not> js_not p \<Longrightarrow> answers E s \<Longrightarrow>
      fst res = json 201 (MessageSkill ''Skill added successfully'' (Some row)) \<and>
      skills (snd res) = skills s @ [row] \<and> users (snd res) = users s"
    by (simp add: res_def n_def p_def row_def protected_pass [OF auth] post_skills_def
        answers_def pool_query_answered insert_skill_def rows0_def Let_def)
  have missing: "js_not n \<or> js_not p \<Longrightarrow>
      res = (json 400 (Error ''Please provide both skill name and proficiency''), s)"
    by (auto simp: res_def n_def p_def protected_pass [OF auth] post_skills_def)
  have other: "k \<noteq> ''skill_name'' \<Longrightarrow> k \<noteq> ''proficiency'' \<Longrightarrow>
      app L E POST_skills (req\<lparr>body := (body req)(k := v)\<rparr>) s = res"
    by (simp add: res_def protected_pass [OF auth] protected_pass [OF auth'] post_skills_def)
  from ok missing other show ?thesis by blast
qed

theorem add_skill_owner_witness:
  "authenticate sample_libs (env_at 9)
     (req_of (bearer alice) [(''skill_name'', ''Go''), (''proficiency'', ''expert'')] 0) =
     Inr alice \<and>
   answers (env_at 9) db1 \<and>
   fst (app sample_libs (env_at 9) POST_skills
          (req_of (bearer alice) [(''skill_name'', ''Go''), (''proficiency'', ''expert'')] 0)
          db1) =
     json 201 (MessageSkill ''Skill added successfully'' (Some go_skill)) \<and>
   fst (app sample_libs (env_at 9) POST_skills
          (req_of (bearer alice)
             [(''user_id'', ''2''), (''skill_name'', ''Go''), (''proficiency'', ''expert'')] 0)
          db1) =
     json 201 (MessageSkill ''Skill added successfully'' (Some go_skill)) \<and>
   app sample_libs (env_at 9) POST_skills
     (req_of (bearer alice) [(''skill_name'', ''Go'')] 0) db1 =
     (json 400 (Error ''Please provide both skill name and proficiency''), db1)"
proof -
  let ?full = "req_of (bearer alice) [(''skill_name'', ''Go''), (''proficiency'', ''expert'')] 0"
  let ?half = "req_of (bearer alice) [(''skill_name'', ''Go'')] 0"
  have a: "authenticate sample_libs (env_at 9) (req_of (bearer alice) kvs 0) = Inr alice" for kvs
    by (rule sample_authenticate) (simp add: alice_def)
  have b: "answers (env_at 9) db1" by (rule env_at_answers)
  have spoof: "req_of (bearer alice)
      [(''user_id'', ''2''), (''skill_name'', ''Go''), (''proficiency'', ''expert'')] 0 =
      ?full\<lparr>body := (body ?full)(''user_id'' := Some ''2'')\<rparr>"
    by (simp add: req_of_def)
  have added: "fst (app sample_libs (env_at 9) POST_skills ?full db1) =
      json 201 (MessageSkill ''Skill added successfully'' (Some go_skill)) \<and>
    app sample_libs (env_at 9) POST_skills
      (?full\<lparr>body := (body ?full)(''user_id'' := Some ''2'')\<rparr>) db1 =
    app sample_libs (env_at 9) POST_skills ?full db1"
    using b add_skill_owner [OF a [of "[(''skill_name'', ''Go''), (''proficiency'', ''expert'')]"],
        where s = db1 and k = "''user_id''" and v = "Some ''2''"]
    by (simp add: req_of_def js_not_def db1_def go_skill_def alice_def)
  have refused: "app sample_libs (env_at 9) POST_skills ?half db1 =
      (json 400 (Error ''Please provide both skill name and proficiency''), db1)"
    using add_skill_owner [OF a [of "[(''skill_name'', ''Go'')]"], where s = db1]
    by (simp add: req_of_def js_not_def)
  from a b added refused show ?thesis unfolding spoof by simp
qed

section \<open>Updating and deleting a skill\<close>

text \<open>
  C7. Update and delete make no ownership check. For every authenticated caller, when
  the database answers: if a row has the id of the path, the update (with skill_name and
  proficiency there) answers 200 with the first such row as updated and rewrites every
  row of that id, and the delete answers 200 and removes every row of that id; nothing
  relates the row's user_id to the caller's userId, and the two handlers return the same
  for any other caller. If no row has the id, both answer 404 and leave the tables as
  they were.
\<close>

theorem no_ownership_check:
  fixes L E req s decoded
  defines "n \<equiv> body req ''skill_name''" and "p \<equiv> body req ''proficiency''"
    and "i \<equiv> params_id req"
  defines "upd \<equiv> app L E PUT_skills_id req s" and "del \<equiv> app L E DELETE_skills_id req s"
  assumes auth: "authenticate L E req = Inr decoded" and ans: "answers E s"
  shows
  "(\<not> js_not n \<and> \<not> js_not p \<longrightarrow>
     (case find (\<lambda>k. skills_id k = i) (skills s) of
        None \<Rightarrow> fst upd = json 404 (Error ''Skill not found'') \<and> tables (snd upd) = tables s
      | Some k \<Rightarrow>
          fst upd = json 200 (MessageSkill ''Skill updated successfully''
                      (Some (k\<lparr>skill_name := the n, proficiency := the p\<rparr>))) \<and>
          skills (snd upd) =
            map (\<lambda>k. if skills_id k = i then k\<lparr>skill_name := the n, proficiency := the p\<rparr>
                      else k) (skills s))) \<and>
   (case find (\<lambda>k. skills_id k = i) (skills s) of
      None \<Rightarrow> fst del = json 404 (Error ''Skill not found'') \<and> tables (snd del) = tables s
    | Some k \<Rightarrow>
        fst del = json 200 (Message ''Skill deleted successfully'') \<and>
        skills (snd del) = filter (\<lambda>k. skills_id k \<noteq> i) (skills s)) \<and>
   put_skills E decoded req s = put_skills E other req s \<and>
   delete_skills E decoded req s = delete_skills E other req s"
proof -
  have absent: "find (\<lambda>k. skills_id k = i) (skills s) = None \<Longrightarrow>
      (\<forall>k \<in> set (skills s). skills_id k \<noteq> i)"
    by (auto simp: find_None_iff)
  have u: "\<not> js_not n \<Longrightarrow> \<not> js_not p \<Longrightarrow>
     (case find (\<lambda>k. skills_id k = i) (skills s) of
        None \<Rightarrow> fst upd = json 404 (Error ''Skill not found'') \<and> tables (snd upd) = tables s
      | Some k \<Rightarrow>
          fst upd = json 200 (MessageSkill ''Skill updated successfully''
                      (Some (k\<lparr>skill_name := the n, proficiency := the p\<rparr>))) \<and>
          skills (snd upd) =
            map (\<lambda>k. if skills_id k = i then k\<lparr>skill_name := the n, proficiency := the p\<rparr>
                      else k) (skills s))"
    using absent
    by (auto simp: upd_def n_def p_def i_def protected_pass [OF auth] tables_def
        put_skills_answered [OF _ _ ans] intro!: map_unchanged split: option.splits)
  have d: "(case find (\<lambda>k. skills_id k = i) (skills s) of
      None \<Rightarrow> fst del = json 404 (Error ''Skill not found'') \<and> tables (snd del) = tables s
    | Some k \<Rightarrow>
        fst del = json 200 (Message ''Skill deleted successfully'') \<and>
        skills (snd del) = filter (\<lambda>k. skills_id k \<noteq> i) (skills s))"
    using absent
    by (auto simp: del_def i_def protected_pass [OF auth] tables_def
        delete_skills_answered [OF ans] split: option.splits)
  have same: "put_skills E decoded req s = put_skills E other req s"
    "delete_skills E decoded req s = delete_skills E other req s"
    by (simp_all add: put_skills_def delete_skills_def)
  from u d same show ?thesis by blast
qed

theorem no_ownership_check_witness:
  "authenticate sample_libs (env_at 9)
     (req_of (bearer bob) [(''skill_name'', ''Rust''), (''proficiency'', ''novice'')] 1) = Inr bob \<and>
   answers (env_at 9) db2 \<and>
   user_id go_skill \<noteq> userId bob \<and>
   fst (app sample_libs (env_at 9) PUT_skills_id
          (req_of (bearer bob) [(''skill_name'', ''Rust''), (''proficiency'', ''novice'')] 1) db2) =
     json 200 (MessageSkill ''Skill updated successfully''
       (Some \<lparr>skills_id = 1, user_id = 1, skill_name = ''Rust'', proficiency = ''novice''\<rparr>)) \<and>
   fst (app sample_libs (env_at 9) DELETE_skills_id
          (req_of (bearer bob) [(''skill_name'', ''Rust''), (''proficiency'', ''novice'')] 1) db2) =
     json 200 (Message ''Skill deleted successfully'') \<and>
   skills (snd (app sample_libs (env_at 9) DELETE_skills_id
          (req_of (bearer bob) [(''skill_name'', ''Rust''), (''proficiency'', ''novice'')] 1) db2)) = [] \<and>
   fst (app sample_libs (env_at 9) PUT_skills_id
          (req_of (bearer bob) [(''skill_name'', ''Rust''), (''proficiency'', ''novice'')] 7) db2) =
     json 404 (Error ''Skill not found'') \<and>
   fst (app sample_libs (env_at 9) DELETE_skills_id
          (req_of (bearer bob) [(''skill_name'', ''Rust''), (''proficiency'', ''novice'')] 7) db2) =
     json 404 (Error ''Skill not found'')"
proof -
  let ?kvs = "[(''skill_name'', ''Rust''), (''proficiency'', ''novice'')]"
  have a: "authenticate sample_libs (env_at 9) (req_of (bearer bob) ?kvs i) = Inr bob" for i
    by (rule sample_authenticate) (simp add: bob_def)
  have b: "answers (env_at 9) db2" by (rule env_at_answers)
  have o: "user_id go_skill \<noteq> userId bob" by (simp add: go_skill_def bob_def)
  have hit: "fst (app sample_libs (env_at 9) PUT_skills_id (req_of (bearer bob) ?kvs 1) db2) =
      json 200 (MessageSkill ''Skill updated successfully''
        (Some \<lparr>skills_id = 1, user_id = 1, skill_name = ''Rust'', proficiency = ''novice''\<rparr>)) \<and>
    fst (app sample_libs (env_at 9) DELETE_skills_id (req_of (bearer bob) ?kvs 1) db2) =
      json 200 (Message ''Skill deleted successfully'') \<and>
    skills (snd (app sample_libs (env_at 9) DELETE_skills_id (req_of (bearer bob) ?kvs 1) db2)) = []"
    using no_ownership_check [OF a [of 1] b]
    by (simp add: req_of_def js_not_def db2_def go_skill_def)
  have miss: "fst (app sample_libs (env_at 9) PUT_skills_id (req_of (bearer bob) ?kvs 7) db2) =
      json 404 (Error ''Skill not found'') \<and>
    fst (app sample_libs (env_at 9) DELETE_skills_id (req_of (bearer bob) ?kvs 7) db2) =
      json 404 (Error ''Skill not found'')"
    using no_ownership_check [OF a [of 7] b]
    by (simp add: req_of_def js_not_def db2_def go_skill_def)
  from a b o hit miss show ?thesis by simp
qed

text \<open>
  C8. When a delete of a skill id answers 200, a row had that id and none has it
  afterwards: an authenticated listing, for the owner as for anyone, answers 200 with the
  caller's rows and none of them has the id, and a second delete of the id answers 404.
  With the sequence of ids ahead of the table, the same holds after any further requests.
  An update or a delete of an id that no row has answers 404.
\<close>

theorem deleted_skill_is_gone:
  fixes L E req s evs
  defines "i \<equiv> params_id req"
  defines "s' \<equiv> snd (app L E DELETE_skills_id req s)"
  defines "t \<equiv> run L evs s'"
  shows
  "(status (fst (app L E DELETE_skills_id req s)) = 200 \<longrightarrow>
     (\<exists>k \<in> set (skills s). skills_id k = i) \<and>
     (\<forall>k \<in> set (skills s'). skills_id k \<noteq> i) \<and>
     (authenticate L E2 req2 = Inr d2 \<and> answers E2 s' \<longrightarrow>
        fst (app L E2 GET_skills req2 s') =
          json 200 (Skills (filter (\<lambda>k. user_id k = userId d2) (skills s'))) \<and>
        (\<forall>k \<in> set (filter (\<lambda>k. user_id k = userId d2) (skills s')). skills_id k \<noteq> i)) \<and>
     (authenticate L E3 req3 = Inr d3 \<and> answers E3 s' \<and> params_id req3 = i \<longrightarrow>
        fst (app L E3 DELETE_skills_id req3 s') = json 404 (Error ''Skill not found'')) \<and>
     (seq_ahead s \<longrightarrow>
        (\<forall>k \<in> set (skills t). skills_id k \<noteq> i) \<and>
        (authenticate L E2 req2 = Inr d2 \<and> answers E2 t \<longrightarrow>
           fst (app L E2 GET_skills req2 t) =
             json 200 (Skills (filter (\<lambda>k. user_id k = userId d2) (skills t))) \<and>
           (\<forall>k \<in> set (filter (\<lambda>k. user_id k = userId d2) (skills t)). skills_id k \<noteq> i)) \<and>
        (authenticate L E3 req3 = Inr d3 \<and> answers E3 t \<and> params_id req3 = i \<longrightarrow>
           fst (app L E3 DELETE_skills_id req3 t) = json 404 (Error ''Skill not found'')))) \<and>
   (authenticate L E4 req4 = Inr d4 \<and> answers E4 s4 \<and>
    (\<forall>k \<in> set (skills s4). skills_id k \<noteq> params_id req4) \<longrightarrow>
      fst (app L E4 DELETE_skills_id req4 s4) = json 404 (Error ''Skill not found'') \<and>
      (\<not> js_not (body req4 ''skill_name'') \<and> \<not> js_not (body req4 ''proficiency'') \<longrightarrow>
         fst (app L E4 PUT_skills_id req4 s4) = json 404 (Error ''Skill not found'')))"
proof -
  have list: "fst (app L E2 GET_skills req2 u) =
        json 200 (Skills (filter (\<lambda>k. user_id k = userId d2) (skills u))) \<and>
      (\<forall>k \<in> set (filter (\<lambda>k. user_id k = userId d2) (skills u)). skills_id k \<noteq> i)"
    if "\<forall>k \<in> set (skills u). skills_id k \<noteq> i" "authenticate L E2 req2 = Inr d2" "answers E2 u"
    for u
    using that by (simp add: protected_pass [OF that(2)] get_skills_answered)
  have again: "fst (app L E3 DELETE_skills_id req3 u) = json 404 (Error ''Skill not found'')"
    if "\<forall>k \<in> set (skills u). skills_id k \<noteq> i" "authenticate L E3 req3 = Inr d3" "answers E3 u"
      "params_id req3 = i"
    for u
    using that absent_404(1) [of u req3 E3 d3] by (simp add: protected_pass [OF that(2)])
  have after: "(\<exists>k \<in> set (skills s). skills_id k = i) \<and>
      (\<forall>k \<in> set (skills s'). skills_id k \<noteq> i) \<and>
      (seq_ahead s \<longrightarrow> (\<forall>k \<in> set (skills t). skills_id k \<noteq> i))"
    if ok: "status (fst (app L E DELETE_skills_id req s)) = 200"
  proof -
    from delete_200 [OF ok] obtain d where d: "authenticate L E req = Inr d"
      and ans: "answers E s" and ex: "\<exists>k \<in> set (skills s). skills_id k = i"
      by (auto simp: i_def)
    have s': "skills s' = filter (\<lambda>k. skills_id k \<noteq> i) (skills s)"
      "skills_id_seq s' = skills_id_seq s"
      by (simp_all add: s'_def i_def protected_pass [OF d] delete_skills_answered [OF ans])
    then have none: "\<forall>k \<in> set (skills s'). skills_id k \<noteq> i" by simp
    have later: "\<forall>k \<in> set (skills t). skills_id k \<noteq> i" if "seq_ahead s"
    proof -
      from that ex have "i < skills_id_seq s" by (auto simp: seq_ahead_def)
      with none s' have "gone i s'" by (simp add: gone_def)
      then have "gone i t" unfolding t_def by (rule run_gone)
      then show ?thesis by (simp add: gone_def)
    qed
    from ex none later show ?thesis by blast
  qed
  have never: "fst (app L E4 DELETE_skills_id req4 s4) = json 404 (Error ''Skill not found'') \<and>
      (\<not> js_not (body req4 ''skill_name'') \<and> \<not> js_not (body req4 ''proficiency'') \<longrightarrow>
         fst (app L E4 PUT_skills_id req4 s4) = json 404 (Error ''Skill not found''))"
    if "authenticate L E4 req4 = Inr d4" "answers E4 s4"
      "\<forall>k \<in> set (skills s4). skills_id k \<noteq> params_id req4"
    using absent_404 [OF that(3) that(2), of d4] by (simp add: protected_pass [OF that(1)])
  from list again after never show ?thesis by blast
qed

theorem deleted_skill_is_gone_witness:
  "status (fst (app sample_libs (env_at 9) DELETE_skills_id (req_of (bearer alice) [] 1) db2)) = 200 \<and>
   authenticate sample_libs (env_at 20) (req_of (bearer alice) [] 1) = Inr alice \<and>
   seq_ahead db2 \<and>
   fst (app sample_libs (env_at 20) GET_skills (req_of (bearer alice) [] 1)
         (snd (app sample_libs (env_at 9) DELETE_skills_id (req_of (bearer alice) [] 1) db2))) =
     json 200 (Skills []) \<and>
   fst (app sample_libs (env_at 20) DELETE_skills_id (req_of (bearer alice) [] 1)
         (snd (app sample_libs (env_at 9) DELETE_skills_id (req_of (bearer alice) [] 1) db2))) =
     json 404 (Error ''Skill not found'') \<and>
   fst (app sample_libs (env_at 20) DELETE_skills_id (req_of (bearer alice) [] 1) db1) =
     json 404 (Error ''Skill not found'')"
proof -
  let ?req = "req_of (bearer alice) [] 1"
  have a: "authenticate sample_libs (env_at t) (req_of (bearer alice) [] j) = Inr alice"
    if "t \<le> 3600" for t j
    using that by (intro sample_authenticate) (simp add: alice_def)
  have del: "app sample_libs (env_at 9) DELETE_skills_id ?req db2 =
      (json 200 (Message ''Skill deleted successfully''),
       db2\<lparr>skills := [], queries := [''DELETE FROM skills WHERE id = $1 RETURNING *'']\<rparr>)"
  proof -
    have "app sample_libs (env_at 9) DELETE_skills_id ?req db2 =
        delete_skills (env_at 9) alice ?req db2"
      unfolding app.simps by (rule protected_pass) (simp add: a)
    then show ?thesis
      by (simp add: delete_skills_def pool_query_def delete_skill_def
          env_at_def req_of_def db2_def go_skill_def Let_def)
  qed
  have ok: "status (fst (app sample_libs (env_at 9) DELETE_skills_id ?req db2)) = 200"
    using del by (simp add: json_def)
  have sq: "seq_ahead db2" by (simp add: seq_ahead_def db2_def go_skill_def)
  have ans: "answers (env_at 20) u" for u by (rule env_at_answers)
  have "fst (app sample_libs (env_at 20) GET_skills ?req
         (snd (app sample_libs (env_at 9) DELETE_skills_id ?req db2))) = json 200 (Skills []) \<and>
     fst (app sample_libs (env_at 20) DELETE_skills_id ?req
         (snd (app sample_libs (env_at 9) DELETE_skills_id ?req db2))) =
       json 404 (Error ''Skill not found'') \<and>
     fst (app sample_libs (env_at 20) DELETE_skills_id ?req db1) =
       json 404 (Error ''Skill not found'')"
    using del ok a [of 20 1] ans
      deleted_skill_is_gone [where L = sample_libs and E = "env_at 9" and req = ?req and s = db2
        and ?E2.0 = "env_at 20" and ?req2.0 = ?req and ?d2.0 = alice
        and ?E3.0 = "env_at 20" and ?req3.0 = ?req and ?d3.0 = alice
        and ?E4.0 = "env_at 20" and ?req4.0 = ?req and ?d4.0 = alice and ?s4.0 = db1
        and evs = "[]"]
    by (simp add: db1_def db2_def req_of_def)
  with ok a [of 20 1] sq show ?thesis by simp
qed

section \<open>The middleware\<close>

text \<open>
  C2, as the code has it. The middleware answers 401 when the Authorization header is
  absent, empty, or exactly \<open>Bearer \<close>. Otherwise it removes the first occurrence of
  \<open>Bearer \<close> from the header (the prefix, when the header starts with it; a header
  without it is taken whole as the token) and verifies what is left: it answers 400 when
  the verification fails, and on success it hands the decoded payload and the request to
  the handler.
\<close>

theorem authenticate_cases:
  "(authorization req = None \<longrightarrow>
      authenticate L E req = Inl (json 401 (Error ''Access denied, token missing''))) \<and>
   (authorization req = Some h \<longrightarrow>
      (if h = [] \<or> h = ''Bearer '' then
         authenticate L E req = Inl (json 401 (Error ''Access denied, token missing''))
       else
         authenticate L E req =
           (case jwt_verify L (replace_first ''Bearer '' [] h) secret_key (now E) of
              Inl err \<Rightarrow> Inl (json 400 (Error ''Invalid token''))
            | Inr decoded \<Rightarrow> Inr decoded))) \<and>
   replace_first ''Bearer '' [] (''Bearer '' @ tok) = tok \<and>
   (\<not> sublist ''Bearer '' h \<longrightarrow> replace_first ''Bearer '' [] h = h) \<and>
   (authenticate L E req = Inr decoded \<longrightarrow>
      protected L E handler req s = handler decoded req s) \<and>
   (authenticate L E req = Inl res \<longrightarrow> protected L E handler req s = (res, s))"
proof -
  have e: "replace_first ''Bearer '' [] h = [] \<longleftrightarrow> h = [] \<or> h = ''Bearer ''" for h
    by (rule replace_first_empty) simp
  have none: "authorization req = None \<Longrightarrow>
      authenticate L E req = Inl (json 401 (Error ''Access denied, token missing''))"
    by (simp add: authenticate_def js_not_def)
  have some: "authorization req = Some h \<Longrightarrow>
      (if h = [] \<or> h = ''Bearer '' then
         authenticate L E req = Inl (json 401 (Error ''Access denied, token missing''))
       else
         authenticate L E req =
           (case jwt_verify L (replace_first ''Bearer '' [] h) secret_key (now E) of
              Inl err \<Rightarrow> Inl (json 400 (Error ''Invalid token''))
            | Inr decoded \<Rightarrow> Inr decoded))"
    using e [of h] by (simp add: authenticate_def js_not_def Let_def)
  have whole: "\<not> sublist ''Bearer '' h \<Longrightarrow> replace_first ''Bearer '' [] h = h"
    by (rule replace_first_absent)
  from none some strip_bearer [of tok] whole show ?thesis
    by (simp add: protected_def)
qed

lemma alice_text:
  "sample_encode secret_key alice = ''1111.your_secret_key1.101.alice111.a@x.com.000010000111.''"
  by (simp add: alice_def sample_encode_def sample_enc_str_def secret_key_def)

lemma alice_verified: "jwt_verify sample_libs (sample_encode secret_key alice) secret_key 10 = Inr alice"
  by (simp add: jwt_verify_def sample_libs_def sample_codec) (simp add: alice_def)

theorem authenticate_cases_witness:
  "authenticate sample_libs (env_at 10) (req_of None [] 0) =
     Inl (json 401 (Error ''Access denied, token missing'')) \<and>
   authenticate sample_libs (env_at 10) (req_of (Some ''Bearer '') [] 0) =
     Inl (json 401 (Error ''Access denied, token missing'')) \<and>
   authenticate sample_libs (env_at 10) (req_of (bearer alice) [] 0) = Inr alice \<and>
   protected sample_libs (env_at 10) (get_skills (env_at 10)) (req_of (bearer alice) [] 0) db2 =
     get_skills (env_at 10) alice (req_of (bearer alice) [] 0) db2 \<and>
   authenticate sample_libs (env_at 10) (req_of (Some ''Bearer abc'') [] 0) =
     Inl (json 400 (Error ''Invalid token'')) \<and>
   protected sample_libs (env_at 10) (get_skills (env_at 10)) (req_of (Some ''Bearer abc'') [] 0) db2 =
     (json 400 (Error ''Invalid token''), db2)"
proof -
  have bad: "jwt_verify sample_libs ''abc'' secret_key 10 = Inl InvalidSignature"
    by (simp add: jwt_verify_def sample_libs_def sample_decode_def sample_dec_str_def)
  have n: "sample_encode secret_key alice \<noteq> []" by (rule sample_encode_nonempty)
  have absent: "authenticate sample_libs (env_at 10) (req_of None [] 0) =
      Inl (json 401 (Error ''Access denied, token missing''))"
    using authenticate_cases [where L = sample_libs and E = "env_at 10" and req = "req_of None [] 0"]
    by (simp add: req_of_def)
  have bare: "authenticate sample_libs (env_at 10) (req_of (Some ''Bearer '') [] 0) =
      Inl (json 401 (Error ''Access denied, token missing''))"
    using authenticate_cases [where L = sample_libs and E = "env_at 10" and h = "''Bearer ''"
        and req = "req_of (Some ''Bearer '') [] 0"]
    by (simp add: req_of_def)
  have good: "authenticate sample_libs (env_at 10) (req_of (bearer alice) [] 0) = Inr alice"
    using alice_verified n
      authenticate_cases [where L = sample_libs and E = "env_at 10"
        and h = "''Bearer '' @ sample_encode secret_key alice"
        and tok = "sample_encode secret_key alice" and req = "req_of (bearer alice) [] 0"]
    by (simp add: req_of_def bearer_def env_at_def)
  have wrong: "authenticate sample_libs (env_at 10) (req_of (Some ''Bearer abc'') [] 0) =
      Inl (json 400 (Error ''Invalid token''))"
    using bad
      authenticate_cases [where L = sample_libs and E = "env_at 10" and h = "''Bearer abc''"
        and tok = "''abc''" and req = "req_of (Some ''Bearer abc'') [] 0"]
    by (simp add: req_of_def env_at_def)
  have pass: "protected sample_libs (env_at 10) (get_skills (env_at 10))
      (req_of (bearer alice) [] 0) db2 = get_skills (env_at 10) alice (req_of (bearer alice) [] 0) db2"
    using good
      authenticate_cases [where L = sample_libs and E = "env_at 10" and decoded = alice
        and handler = "get_skills (env_at 10)" and s = db2 and req = "req_of (bearer alice) [] 0"]
    by simp
  have stop: "protected sample_libs (env_at 10) (get_skills (env_at 10))
      (req_of (Some ''Bearer abc'') [] 0) db2 = (json 400 (Error ''Invalid token''), db2)"
    using wrong
      authenticate_cases [where L = sample_libs and E = "env_at 10"
        and res = "json 400 (Error ''Invalid token'')"
        and handler = "get_skills (env_at 10)" and s = db2
        and req = "req_of (Some ''Bearer abc'') [] 0"]
    by simp
  from absent bare good pass wrong stop show ?thesis by simp
qed

text \<open>
  The claim as the spec states it fails on a header that carries no bearer prefix: the
  middleware does not answer 401. A header \<open>abc\<close> is verified as a token and refused
  with 400, and a header that is a valid token, with no prefix, is accepted.
\<close>

theorem bearer_prefix_counterexample:
  "authenticate sample_libs (env_at 10) (req_of (Some ''abc'') [] 0) =
     Inl (json 400 (Error ''Invalid token'')) \<and>
   authenticate sample_libs (env_at 10) (req_of (Some (sample_encode secret_key alice)) [] 0) =
     Inr alice"
proof -
  have a: "jwt_verify sample_libs ''abc'' secret_key 10 = Inl InvalidSignature"
    by (simp add: jwt_verify_def sample_libs_def sample_decode_def sample_dec_str_def)
  have r: "replace_first ''Bearer '' [] (sample_encode secret_key alice) =
      sample_encode secret_key alice"
    unfolding alice_text by simp
  have n: "sample_encode secret_key alice \<noteq> []" by (rule sample_encode_nonempty)
  show ?thesis
    using a r alice_verified n
    by (simp add: authenticate_def req_of_def env_at_def js_not_def Let_def)
qed

section \<open>Expiry of a token\<close>

text \<open>
  C9. A token that login issued at time \<open>now E\<close> expires one hour later: verified at any
  later time it fails with \<open>Expired\<close>, and the middleware, given the token behind the
  bearer prefix at such a time, answers 400 \<open>Invalid token\<close>; the handler of every
  protected route is not run and the database is left as it was. In general, no token is
  verified after the expiry in its payload.
\<close>

theorem expired_token_rejected:
  fixes L E req s t E2 req2
  assumes codec: "codec_sound L"
    and login: "fst (post_login L E req s) = json 200 (MessageToken m token)"
    and late: "now E + expiresIn < t"
  shows
  "jwt_verify L token secret_key t = Inl Expired \<and>
   (now E2 = t \<and> authorization req2 = Some (''Bearer '' @ token) \<longrightarrow>
      authenticate L E2 req2 = Inl (json 400 (Error ''Invalid token'')) \<and>
      protected L E2 handler req2 s2 = (json 400 (Error ''Invalid token''), s2) \<and>
      (rt \<noteq> GET_root \<and> rt \<noteq> POST_register \<and> rt \<noteq> POST_login \<longrightarrow>
         app L E2 rt req2 s2 = (json 400 (Error ''Invalid token''), s2))) \<and>
   (jwt_decode L secret_key tok = Some p \<and> exp_claim p < t \<longrightarrow>
      jwt_verify L tok secret_key t = Inl Expired) \<and>
   (jwt_verify L tok secret_key t = Inr p \<longrightarrow> t \<le> exp_claim p)"
proof -
  from login have "status (fst (post_login L E req s)) = 200" by (simp add: json_def)
  from login_200 [OF this] obtain user :: user_row where
    "fst (post_login L E req s) = json 200 (MessageToken ''Login successful''
       (jwt_sign L \<lparr>userId = users_id user, username_claim = username user,
                    email_claim = email user\<rparr> secret_key expiresIn (now E)))"
    by blast
  with login have
    tk: "token = jwt_sign L \<lparr>userId = users_id user, username_claim = username user,
           email_claim = email user\<rparr> secret_key expiresIn (now E)"
    by (simp add: json_def)
  from late have v: "jwt_verify L token secret_key t = Inl Expired"
    by (simp add: tk verify_issued [OF codec])
  have a: "authenticate L E2 req2 = Inl (json 400 (Error ''Invalid token''))"
    if "now E2 = t" "authorization req2 = Some (''Bearer '' @ token)"
    using that late authenticate_expired [OF codec, of "now E" expiresIn E2 req2] by (simp add: tk)
  have g1: "jwt_decode L secret_key tok = Some p \<Longrightarrow> exp_claim p < t \<Longrightarrow>
      jwt_verify L tok secret_key t = Inl Expired"
    by (simp add: jwt_verify_def)
  have g2: "jwt_verify L tok secret_key t = Inr p \<Longrightarrow> t \<le> exp_claim p"
    by (auto simp: jwt_verify_def split: option.splits if_splits)
  have r: "app L E2 rt req2 s2 = (json 400 (Error ''Invalid token''), s2)"
    if "now E2 = t" "authorization req2 = Some (''Bearer '' @ token)"
      "rt \<noteq> GET_root" "rt \<noteq> POST_register" "rt \<noteq> POST_login"
    using that a by (cases rt) (simp_all add: protected_def)
  from v a g1 g2 r show ?thesis by (simp add: protected_def)
qed

lemma alice_logs_in:
  "fst (post_login sample_libs (env_at 0) alice_login db1) =
     json 200 (MessageToken ''Login successful'' (sample_encode secret_key alice))"
  by (simp add: post_login_answered env_at_answers alice_login_def req_of_def js_not_def
      db1_def alice_row_def)
    (simp add: sample_libs_def sample_compare_def jwt_sign_def env_at_def expiresIn_def alice_def)

theorem expired_token_rejected_witness:
  "codec_sound sample_libs \<and>
   fst (post_login sample_libs (env_at 0) alice_login db1) =
     json 200 (MessageToken ''Login successful'' (sample_encode secret_key alice)) \<and>
   now (env_at 0) + expiresIn < 3601 \<and>
   jwt_verify sample_libs (sample_encode secret_key alice) secret_key 3601 = Inl Expired \<and>
   authenticate sample_libs (env_at 3601) (req_of (bearer alice) [] 0) =
     Inl (json 400 (Error ''Invalid token'')) \<and>
   app sample_libs (env_at 3601) GET_skills (req_of (bearer alice) [] 0) db2 =
     (json 400 (Error ''Invalid token''), db2)"
proof -
  have late: "now (env_at 0) + expiresIn < 3601" by (simp add: env_at_def expiresIn_def)
  have "jwt_verify sample_libs (sample_encode secret_key alice) secret_key 3601 = Inl Expired \<and>
    authenticate sample_libs (env_at 3601) (req_of (bearer alice) [] 0) =
      Inl (json 400 (Error ''Invalid token'')) \<and>
    app sample_libs (env_at 3601) GET_skills (req_of (bearer alice) [] 0) db2 =
      (json 400 (Error ''Invalid token''), db2)"
    using expired_token_rejected [OF sample_codec_sound alice_logs_in late,
        where ?E2.0 = "env_at 3601" and ?req2.0 = "req_of (bearer alice) [] 0"
          and rt = GET_skills and ?s2.0 = db2]
    by (simp add: req_of_def bearer_def env_at_def)
  with sample_codec_sound alice_logs_in late show ?thesis by simp
qed

section \<open>The stored password\<close>

text \<open>
  C5. A successful registration stores, and returns, a row whose password is the value
  of \<open>bcrypt.hash\<close> on the submitted password, at cost 10 with a fresh salt; with a
  hasher whose hash is never its input, that is never the submitted plaintext. Every
  request leaves the users table as it was or, on the registration route only, appends
  one row whose password is such a hash; so a table that holds only hashes holds only
  hashes after any request and after any sequence of requests.
\<close>

theorem password_stored_hashed:
  fixes L E req s
  defines "res \<equiv> post_register L E req s"
  defines "row \<equiv> \<lparr>users_id = users_id_seq s, username = the (body req ''username''),
                   email = the (body req ''email''),
                   password = bcrypt_hash L (the (body req ''password'')) 10 (salt E)\<rparr>"
  shows
  "(status (fst res) = 201 \<longrightarrow>
      fst res = json 201 (MessageUser ''User registered successfully'' (Some row)) \<and>
      users (snd res) = users s @ [row] \<and>
      (hash_differs L \<longrightarrow> password row \<noteq> the (body req ''password''))) \<and>
   (users (snd (app L E2 rt req2 s2)) = users s2 \<or>
    rt = POST_register \<and>
    (\<exists>r. users (snd (app L E2 rt req2 s2)) = users s2 @ [r] \<and>
         password r = bcrypt_hash L (the (body req2 ''password'')) 10 (salt E2))) \<and>
   (hashed L s2 \<longrightarrow> hashed L (snd (app L E2 rt req2 s2)) \<and> hashed L (run L evs s2))"
proof -
  have a: "status (fst res) = 201 \<Longrightarrow>
      fst res = json 201 (MessageUser ''User registered successfully'' (Some row)) \<and>
      users (snd res) = users s @ [row]"
    using register_users [of L E req s] by (auto simp: res_def row_def)
  have b: "hash_differs L \<Longrightarrow> password row \<noteq> the (body req ''password'')"
    by (simp add: hash_differs_def row_def)
  have c: "users (snd (app L E2 rt req2 s2)) = users s2 \<or>
    rt = POST_register \<and>
    (\<exists>r. users (snd (app L E2 rt req2 s2)) = users s2 @ [r] \<and>
         password r = bcrypt_hash L (the (body req2 ''password'')) 10 (salt E2))"
    using app_users [of L E2 rt req2 s2] by auto
  from a b c app_hashed [of L s2 E2 rt req2] run_hashed [of L s2 evs] show ?thesis
    by blast
qed

lemma alice_registers:
  "fst (post_register sample_libs (env_at 0) alice_reg db0) =
     json 201 (MessageUser ''User registered successfully'' (Some alice_row))"
  "users (snd (post_register sample_libs (env_at 0) alice_reg db0)) = [alice_row]"
  by (simp_all add: post_register_def pool_query_def select_users_by_email_def
      select_users_by_username_def insert_user_def rows0_def Let_def
      alice_reg_def req_of_def js_not_def db0_def env_at_def sample_libs_def sample_hash_def
      alice_row_def)

lemma db1_hashed: "hashed sample_libs db1"
proof -
  have "password alice_row = bcrypt_hash sample_libs ''pw1'' 10 ''s''"
    by (simp add: alice_row_def sample_libs_def sample_hash_def)
  then show ?thesis unfolding hashed_def db1_def by auto
qed

theorem password_stored_hashed_witness:
  "status (fst (post_register sample_libs (env_at 0) alice_reg db0)) = 201 \<and>
   hash_differs sample_libs \<and>
   hashed sample_libs db1 \<and>
   users (snd (post_register sample_libs (env_at 0) alice_reg db0)) = [alice_row] \<and>
   password alice_row \<noteq> ''pw1'' \<and>
   hashed sample_libs (snd (app sample_libs (env_at 3) POST_register alice_reg db1)) \<and>
   hashed sample_libs (run sample_libs [(env_at 3, POST_login, alice_login)] db1)"
proof -
  let ?row = "\<lparr>users_id = users_id_seq db0, username = the (body alice_reg ''username''),
      email = the (body alice_reg ''email''),
      password = bcrypt_hash sample_libs (the (body alice_reg ''password'')) 10 (salt (env_at 0))\<rparr>"
  have ok: "status (fst (post_register sample_libs (env_at 0) alice_reg db0)) = 201"
    by (simp add: alice_registers json_def)
  have row: "?row = alice_row"
    by (simp add: alice_reg_def req_of_def db0_def env_at_def sample_libs_def sample_hash_def
        alice_row_def)
  have pw: "the (body alice_reg ''password'') = ''pw1''"
    by (simp add: alice_reg_def req_of_def)
  from ok sample_hash_differs db1_hashed
    password_stored_hashed [where L = sample_libs and E = "env_at 0" and req = alice_reg
      and s = db0 and ?E2.0 = "env_at 3" and rt = POST_register and ?req2.0 = alice_reg
      and ?s2.0 = db1 and evs = "[(env_at 3, POST_login, alice_login)]"]
  have "password ?row \<noteq> the (body alice_reg ''password'') \<and>
    hashed sample_libs (snd (app sample_libs (env_at 3) POST_register alice_reg db1)) \<and>
    hashed sample_libs (run sample_libs [(env_at 3, POST_login, alice_login)] db1)"
    by blast
  with ok sample_hash_differs db1_hashed alice_registers(2) show ?thesis
    unfolding row pw by (simp add: alice_row_def)
qed

section \<open>Registration, then login, then verification\<close>

text \<open>
  C1. With a hasher that accepts the hash of the same password and a token codec that
  decodes what it signed: when a registration answers 201 with a row, then after any
  further requests a login with the same email and password, its query answered, answers
  200 with a token, and verifying that token within the hour returns claims whose userId,
  username and email are the id, username and email of the stored row.
\<close>

theorem login_round_trip:
  fixes L E req s evs E2 req2 t
  defines "reg \<equiv> post_register L E req s"
  defines "s2 \<equiv> run L evs (snd reg)"
  defines "row \<equiv> \<lparr>users_id = users_id_seq s, username = the (body req ''username''),
                   email = the (body req ''email''),
                   password = bcrypt_hash L (the (body req ''password'')) 10 (salt E)\<rparr>"
  defines "token \<equiv> jwt_sign L \<lparr>userId = users_id row, username_claim = username row,
                                email_claim = email row\<rparr> secret_key expiresIn (now E2)"
  assumes hasher: "hasher_sound L" and codec: "codec_sound L"
    and registered: "status (fst reg) = 201"
    and same_email: "body req2 ''email'' = body req ''email''"
    and same_password: "body req2 ''password'' = body req ''password''"
    and ans: "answers E2 s2"
    and in_time: "t < now E2 + expiresIn"
  shows
  "fst reg = json 201 (MessageUser ''User registered successfully'' (Some row)) \<and>
   row \<in> set (users s2) \<and>
   fst (post_login L E2 req2 s2) = json 200 (MessageToken ''Login successful'' token) \<and>
   (\<exists>p. jwt_verify L token secret_key t = Inr p \<and>
        userId p = users_id row \<and> username_claim p = username row \<and> email_claim p = email row)"
proof -
  from registered register_users [of L E req s]
  have r: "fst reg = json 201 (MessageUser ''User registered successfully'' (Some row))"
    and u: "users (snd reg) = users s @ [row]"
    and fresh: "\<forall>r \<in> set (users s). email r \<noteq> the (body req ''email'')"
    by (auto simp: reg_def row_def)
  from registered have present: "\<not> js_not (body req ''email'')" "\<not> js_not (body req ''password'')"
    by (auto simp: reg_def post_register_def json_def split: if_splits)
  from u fresh have one: "filter (\<lambda>r. email r = the (body req ''email'')) (users (snd reg)) = [row]"
    by (simp add: row_def filter_empty_conv)
  then have "filter (\<lambda>r. email r = the (body req ''email'')) (users s2) = [row]"
    unfolding s2_def using run_email_kept [of "the (body req ''email'')" "snd reg" L evs] by simp
  then have f: "find (\<lambda>r. email r = the (body req ''email'')) (users s2) = Some row"
    and m: "row \<in> set (users s2)"
    using rows0_filter [of "\<lambda>r. email r = the (body req ''email'')" "users s2"]
      filter_set [of "\<lambda>r. email r = the (body req ''email'')" "users s2"]
    by (auto simp: rows0_def)
  from hasher have c: "bcrypt_compare L (the (body req ''password'')) (password row)"
    by (simp add: hasher_sound_def row_def)
  have l: "fst (post_login L E2 req2 s2) = json 200 (MessageToken ''Login successful'' token)"
    using present same_email same_password ans f c
    by (simp add: post_login_answered token_def)
  from in_time have v: "jwt_verify L token secret_key t =
      Inr \<lparr>userId = users_id row, username_claim = username row, email_claim = email row,
           iat = now E2, exp_claim = now E2 + expiresIn\<rparr>"
    by (simp add: token_def verify_issued [OF codec])
  from r m l v show ?thesis by simp
qed

theorem login_round_trip_witness:
  "hasher_sound sample_libs \<and> codec_sound sample_libs \<and>
   status (fst (post_register sample_libs (env_at 0) alice_reg db0)) = 201 \<and>
   body alice_login ''email'' = body alice_reg ''email'' \<and>
   body alice_login ''password'' = body alice_reg ''password'' \<and>
   (100 :: nat) < now (env_at 5) + expiresIn \<and>
   fst (post_login sample_libs (env_at 5) alice_login
          (run sample_libs [(env_at 1, POST_login, alice_login)]
             (snd (post_register sample_libs (env_at 0) alice_reg db0)))) =
     json 200 (MessageToken ''Login successful''
       (jwt_sign sample_libs \<lparr>userId = 1, username_claim = ''alice'', email_claim = ''a@x.com''\<rparr>
          secret_key expiresIn 5)) \<and>
   (\<exists>p. jwt_verify sample_libs
          (jwt_sign sample_libs \<lparr>userId = 1, username_claim = ''alice'', email_claim = ''a@x.com''\<rparr>
             secret_key expiresIn 5) secret_key 100 = Inr p \<and>
        userId p = 1 \<and> username_claim p = ''alice'' \<and> email_claim p = ''a@x.com'')"
proof -
  have ok: "status (fst (post_register sample_libs (env_at 0) alice_reg db0)) = 201"
    by (simp add: alice_registers json_def)
  have e: "body alice_login ''email'' = body alice_reg ''email''"
    and p: "body alice_login ''password'' = body alice_reg ''password''"
    by (simp_all add: alice_login_def alice_reg_def req_of_def)
  have t: "(100 :: nat) < now (env_at 5) + expiresIn" by (simp add: env_at_def expiresIn_def)
  have "fst (post_login sample_libs (env_at 5) alice_login
          (run sample_libs [(env_at 1, POST_login, alice_login)]
             (snd (post_register sample_libs (env_at 0) alice_reg db0)))) =
     json 200 (MessageToken ''Login successful''
       (jwt_sign sample_libs \<lparr>userId = 1, username_claim = ''alice'', email_claim = ''a@x.com''\<rparr>
          secret_key expiresIn 5)) \<and>
   (\<exists>p. jwt_verify sample_libs
          (jwt_sign sample_libs \<lparr>userId = 1, username_claim = ''alice'', email_claim = ''a@x.com''\<rparr>
             secret_key expiresIn 5) secret_key 100 = Inr p \<and>
        userId p = 1 \<and> username_claim p = ''alice'' \<and> email_claim p = ''a@x.com'')"
    using login_round_trip [OF sample_hasher_sound sample_codec_sound ok e p env_at_answers t,
        of "[(env_at 1, POST_login, alice_login)]"]
    by (simp add: alice_reg_def req_of_def db0_def) (simp add: env_at_def)
  with sample_hasher_sound sample_codec_sound ok e p t show ?thesis by simp
qed

end
